theory Spec2Isabelle
  imports Complex_Main "HOL-Library.Sublist" "HOL-Library.Multiset"
begin

section \<open>Data model\<close>

text \<open>
  The visibility prediction engine of the repository, embedded function by function.
  Conventions of the embedding:
  \<^item> a JavaScript \<open>number\<close> is a real and its arithmetic is exact;
  \<^item> a \<open>Date\<close> is its time value, an integer number of milliseconds since the epoch;
    \<open>new Date(s)\<close> of a string that does not parse is an Invalid Date, whose time value
    is NaN: it is \<open>None\<close>, and a comparison with it is false;
  \<^item> a rejected promise or a thrown exception is \<open>Inl\<close> of a sum type;
  \<^item> what the host and the libraries provide (the local calendar, the date parser,
    satellite.js, the network providers) is a field of the record \<open>env\<close>;
  \<^item> the clock reading of a call is its argument \<open>now\<close>, and the results of
    \<open>Math.random()\<close> during a call are its argument \<open>rnd\<close>, indexed by the place of
    the draw.
\<close>

type_synonym Date = int

datatype error = Error string

record LaunchCore =
  core :: "string option"
  flight :: "int option"

text \<open>
  \<open>date_utc\<close> is held as the instant that the ISO string of the launch catalogue denotes;
  a launch whose date does not parse is outside the model.
\<close>

record LaunchLite =
  launch_id :: string
  launch_name :: string
  date_utc :: Date
  cores :: "LaunchCore list"
  launchpad :: string

record StarlinkSat =
  sat_id :: string
  sat_launch :: string
  sat_tle1 :: string
  sat_tle2 :: string
  sat_epoch :: string

record BoosterInfo =
  coreId :: string
  flightNumber :: int
  landingType :: string
  landingPad :: "string option"

record Pass =
  satId :: string
  launchId :: string
  pass_start :: Date
  pass_peak :: Date
  pass_end :: Date
  maxElDeg :: real
  phaseAngleDeg :: real
  score :: real
  azStart :: real
  azEnd :: real
  launchName :: "string option"
  pass_boosterInfo :: "BoosterInfo option"

record UserLocation =
  lat :: real
  lon :: real
  loc_name :: "string option"
  timezone :: "string option"

record PredictionWeights =
  w1 :: real
  w2 :: real
  w3 :: real
  w4 :: real

record EciVec3 =
  eci_x :: real
  eci_y :: real
  eci_z :: real

record GeodeticLocation =
  longitude :: real
  latitude :: real
  height :: real

record LookAngles =
  la_azimuth :: real
  la_elevation :: real
  la_rangeSat :: real

text \<open>
  The environment of a run. The type \<open>'s\<close> is satellite.js's parsed element set
  (\<open>satrec\<close>). \<open>Date_parse s\<close> is the time value of \<open>new Date(s)\<close>, \<open>Date_local y m d\<close>
  is \<open>new Date(y, m, d)\<close>, \<open>getFullYear\<close> and \<open>getHours\<close> read a date in the local time
  zone. The three providers of \<open>spacex-api.ts\<close> perform network requests; the engine
  awaits them as promises and is embedded against every outcome of theirs, \<open>Inl\<close> being
  a rejection. (The handlers of the engine are written for a rejection; the providers
  themselves, embedded in the section on providers, catch what their requests throw.)
\<close>

record 's env =
  Date_parse :: "string \<Rightarrow> Date option"
  Date_local :: "int \<Rightarrow> int \<Rightarrow> int \<Rightarrow> Date"
  getFullYear :: "Date \<Rightarrow> int"
  getHours :: "Date \<Rightarrow> int"
  twoline2satrec :: "string \<Rightarrow> string \<Rightarrow> 's option"
  propagate :: "'s \<Rightarrow> Date \<Rightarrow> EciVec3 option"
  gstime :: "Date \<Rightarrow> real"
  ecfToLookAngles :: "GeodeticLocation \<Rightarrow> EciVec3 \<Rightarrow> real \<Rightarrow> LookAngles"
  getRecentStarlinkLaunches :: "Date \<Rightarrow> error + LaunchLite list"
  getStarlinkSatellites :: "string \<Rightarrow> error + StarlinkSat list"
  getBoosterInfo :: "string \<Rightarrow> error + BoosterInfo option"

subsection \<open>Configuration constants\<close>

definition PREDICTION_DAYS :: int where
  "PREDICTION_DAYS = 7"

definition PREDICTION_STEP_SECONDS :: int where
  "PREDICTION_STEP_SECONDS = 30"

definition MIN_ELEVATION_DEG :: real where
  "MIN_ELEVATION_DEG = 10"

definition CIVIL_TWILIGHT_ANGLE :: real where
  "CIVIL_TWILIGHT_ANGLE = - 6"

definition DEFAULT_WEIGHTS :: PredictionWeights where
  "DEFAULT_WEIGHTS = \<lparr>w1 = 45 / 100, w2 = 3 / 10, w3 = 2 / 10, w4 = 5 / 100\<rparr>"

section \<open>TLE validator\<close>

definition startsWith :: "string \<Rightarrow> string \<Rightarrow> bool" where
  "startsWith s p = (take (length p) s = p)"

text \<open>\<open>!tle1\<close> holds of the empty string only.\<close>

definition isValidTle :: "string \<Rightarrow> string \<Rightarrow> bool" where
  "isValidTle tle1 tle2 =
     (if tle1 = [] \<or> tle2 = [] then False
      else length tle1 = 69 \<and> length tle2 = 69 \<and> startsWith tle1 ''1 '' \<and> startsWith tle2 ''2 '')"

text \<open>
  \<open>new Date(epoch)\<close> never throws, so the \<open>catch\<close> of the source is never entered. An
  Invalid Date makes \<open>hoursDiff\<close> NaN, and \<open>NaN <= 48\<close> is false.
\<close>

definition isTleFresh :: "'s env \<Rightarrow> Date \<Rightarrow> string \<Rightarrow> bool" where
  "isTleFresh e now epoch =
     (if epoch = [] then False
      else case Date_parse e epoch of
             None \<Rightarrow> False
           | Some epochDate \<Rightarrow>
               (let hoursDiff = real_of_int (now - epochDate) / (1000 * 60 * 60)
                in hoursDiff \<le> 48))"

section \<open>Illumination model\<close>

definition radiansToDegrees :: "real \<Rightarrow> real" where
  "radiansToDegrees radians = radians * (180 / pi)"

definition degreesToRadians :: "real \<Rightarrow> real" where
  "degreesToRadians degrees = degrees * (pi / 180)"

definition getUTCHours :: "Date \<Rightarrow> int" where
  "getUTCHours t = (t div 3600000) mod 24"

definition getUTCMinutes :: "Date \<Rightarrow> int" where
  "getUTCMinutes t = (t div 60000) mod 60"

text \<open>\<open>Math.floor\<close> of the quotient of two integers is integer division.\<close>

definition getDayOfYear :: "'s env \<Rightarrow> Date \<Rightarrow> int" where
  "getDayOfYear e date =
     (let start = Date_local e (getFullYear e date) 0 0;
          diff = date - start
      in diff div (1000 * 60 * 60 * 24))"

definition calculateSunPositionEci :: "'s env \<Rightarrow> Date \<Rightarrow> EciVec3" where
  "calculateSunPositionEci e time =
     (let dayOfYear = getDayOfYear e time;
          solarLongitude = (real_of_int dayOfYear - 81) * (360 / (36525 / 100)) * (pi / 180);
          distance = 1495978707 / 10
      in \<lparr>eci_x = distance * cos solarLongitude,
          eci_y = distance * sin solarLongitude,
          eci_z = 0\<rparr>)"

definition isSatelliteInSunlight :: "'s env \<Rightarrow> EciVec3 \<Rightarrow> Date \<Rightarrow> bool" where
  "isSatelliteInSunlight e satelliteEci time =
     (let sunEci = calculateSunPositionEci e time;
          sunMagnitude = sqrt ((eci_x sunEci)\<^sup>2 + (eci_y sunEci)\<^sup>2 + (eci_z sunEci)\<^sup>2);
          sunUnit0 = eci_x sunEci / sunMagnitude;
          sunUnit1 = eci_y sunEci / sunMagnitude;
          sunUnit2 = eci_z sunEci / sunMagnitude;
          dotProduct = eci_x satelliteEci * sunUnit0 + eci_y satelliteEci * sunUnit1
                       + eci_z satelliteEci * sunUnit2;
          satMagnitude = sqrt ((eci_x satelliteEci)\<^sup>2 + (eci_y satelliteEci)\<^sup>2
                               + (eci_z satelliteEci)\<^sup>2);
          cosAngle = dotProduct / satMagnitude
      in cosAngle > 0)"

definition calculateSunElevation :: "'s env \<Rightarrow> GeodeticLocation \<Rightarrow> Date \<Rightarrow> real" where
  "calculateSunElevation e observerGd time =
     (let hour = real_of_int (getUTCHours time) + real_of_int (getUTCMinutes time) / 60;
          dayOfYear = getDayOfYear e time;
          declination = (2345 / 100)
                        * sin ((((360 * (284 + real_of_int dayOfYear)) / 365) * pi) / 180);
          hourAngle = 15 * (hour - 12);
          lat_deg = radiansToDegrees (latitude observerGd);
          elevation =
            (arcsin (sin ((declination * pi) / 180) * sin ((lat_deg * pi) / 180)
                     + cos ((declination * pi) / 180) * cos ((lat_deg * pi) / 180)
                       * cos ((hourAngle * pi) / 180))
             * 180) / pi
      in elevation)"

definition isSatelliteVisible ::
  "'s env \<Rightarrow> EciVec3 \<Rightarrow> GeodeticLocation \<Rightarrow> Date \<Rightarrow> real \<Rightarrow> bool" where
  "isSatelliteVisible e satelliteEci observerGd time elevation =
     (if elevation \<le> MIN_ELEVATION_DEG then False
      else let isSunlit = isSatelliteInSunlight e satelliteEci time
           in if \<not> isSunlit then False
              else let sunElevation = calculateSunElevation e observerGd time;
                       isObserverInDarkness = (sunElevation \<le> CIVIL_TWILIGHT_ANGLE)
                   in isObserverInDarkness)"

section \<open>Pass finder\<close>

record point =
  pt_time :: Date
  pt_elevation :: real
  pt_azimuth :: real
  pt_range :: real

text \<open>
  \<open>points.reduce(f)\<close> without an initial value starts from the first element; the list
  has at least two elements where it is called. \<open>rand\<close> is the result of the call of
  \<open>Math.random()\<close>.
\<close>

definition createPassFromPoints ::
  "StarlinkSat \<Rightarrow> LaunchLite \<Rightarrow> Date \<Rightarrow> point list \<Rightarrow> BoosterInfo option \<Rightarrow> real
   \<Rightarrow> Pass option" where
  "createPassFromPoints sat launch passStart points boosterInfo rand =
     (if length points < 2 then None
      else let peakPoint = foldl (\<lambda>mx pt. if pt_elevation pt > pt_elevation mx then pt else mx)
                             (hd points) (tl points);
               lastPoint = points ! (length points - 1);
               firstPoint = points ! 0;
               phaseAngle = rand * 60 + 30
           in Some \<lparr>satId = sat_id sat,
                    launchId = sat_launch sat,
                    pass_start = passStart,
                    pass_peak = pt_time peakPoint,
                    pass_end = pt_time lastPoint,
                    maxElDeg = pt_elevation peakPoint,
                    phaseAngleDeg = phaseAngle,
                    score = 0,
                    azStart = pt_azimuth firstPoint,
                    azEnd = pt_azimuth lastPoint,
                    launchName = Some (launch_name launch),
                    pass_boosterInfo = boosterInfo\<rparr>)"

text \<open>The variables of the loop of \<open>calculateSatellitePasses\<close>.\<close>

record scan =
  sc_currentTime :: Date
  sc_inPass :: bool
  sc_passStart :: "Date option"
  sc_passPoints :: "point list"
  sc_passes :: "Pass list"

text \<open>The sample that the loop computes from a propagated position.\<close>

definition lookPoint :: "'s env \<Rightarrow> GeodeticLocation \<Rightarrow> EciVec3 \<Rightarrow> Date \<Rightarrow> point" where
  "lookPoint e observerGd positionEci t =
     (let gmst = gstime e t;
          lookAngles = ecfToLookAngles e observerGd positionEci gmst;
          elevation = radiansToDegrees (la_elevation lookAngles);
          azimuth = radiansToDegrees (la_azimuth lookAngles);
          range = la_rangeSat lookAngles
      in \<lparr>pt_time = t, pt_elevation = elevation, pt_azimuth = azimuth, pt_range = range\<rparr>)"

text \<open>
  One iteration of the loop. The pass that closes is the next one of the scan, so it
  takes the draw \<open>rnd (length (sc_passes s))\<close>.
\<close>

definition closePass ::
  "(nat \<Rightarrow> real) \<Rightarrow> StarlinkSat \<Rightarrow> LaunchLite \<Rightarrow> BoosterInfo option \<Rightarrow> scan \<Rightarrow> Pass list" where
  "closePass rnd sat launch boosterInfo s =
     (case sc_passStart s of
        None \<Rightarrow> sc_passes s
      | Some start \<Rightarrow>
          if length (sc_passPoints s) > 0 then
            (case createPassFromPoints sat launch start (sc_passPoints s) boosterInfo
                    (rnd (length (sc_passes s))) of
               None \<Rightarrow> sc_passes s
             | Some pass \<Rightarrow> sc_passes s @ [pass])
          else sc_passes s)"

definition scanStep ::
  "'s env \<Rightarrow> (nat \<Rightarrow> real) \<Rightarrow> StarlinkSat \<Rightarrow> LaunchLite \<Rightarrow> BoosterInfo option \<Rightarrow> 's
   \<Rightarrow> GeodeticLocation \<Rightarrow> scan \<Rightarrow> scan" where
  "scanStep e rnd sat launch boosterInfo satrec observerGd s =
     (let t = sc_currentTime s;
          s1 = (case propagate e satrec t of
                  None \<Rightarrow> s
                | Some positionEci \<Rightarrow>
                    (let pt = lookPoint e observerGd positionEci t;
                         elevation = pt_elevation pt;
                         isVisible = isSatelliteVisible e positionEci observerGd t elevation
                     in if isVisible \<and> elevation > MIN_ELEVATION_DEG then
                          (let s2 = (if \<not> sc_inPass s
                                     then s\<lparr>sc_inPass := True, sc_passStart := Some t, sc_passPoints := []\<rparr>
                                     else s)
                           in s2\<lparr>sc_passPoints := sc_passPoints s2 @ [pt]\<rparr>)
                        else if sc_inPass s then
                          s\<lparr>sc_passes := closePass rnd sat launch boosterInfo s,
                            sc_inPass := False, sc_passStart := None, sc_passPoints := []\<rparr>
                        else s))
      in s1\<lparr>sc_currentTime := t + PREDICTION_STEP_SECONDS * 1000\<rparr>)"

lemma currentTime_scanStep:
  "sc_currentTime (scanStep e rnd sat launch boosterInfo satrec observerGd s) = sc_currentTime s + 30000"
  by (simp add: scanStep_def Let_def PREDICTION_STEP_SECONDS_def split: option.splits)

function scanLoop ::
  "'s env \<Rightarrow> (nat \<Rightarrow> real) \<Rightarrow> StarlinkSat \<Rightarrow> LaunchLite \<Rightarrow> BoosterInfo option \<Rightarrow> 's
   \<Rightarrow> GeodeticLocation \<Rightarrow> Date \<Rightarrow> scan \<Rightarrow> scan" where
  "scanLoop e rnd sat launch boosterInfo satrec observerGd endTime s =
     (if sc_currentTime s \<le> endTime
      then scanLoop e rnd sat launch boosterInfo satrec observerGd endTime
             (scanStep e rnd sat launch boosterInfo satrec observerGd s)
      else s)"
  by pat_completeness auto
termination
  by (relation "measure (\<lambda>(e, rnd, sat, launch, boosterInfo, satrec, observerGd, endTime, s).
                   nat (endTime - sc_currentTime s + 1))")
     (auto simp: currentTime_scanStep)

declare scanLoop.simps [simp del]

definition calculateSatellitePasses ::
  "'s env \<Rightarrow> (nat \<Rightarrow> real) \<Rightarrow> Date \<Rightarrow> StarlinkSat \<Rightarrow> UserLocation \<Rightarrow> LaunchLite
   \<Rightarrow> BoosterInfo option \<Rightarrow> error + Pass list" where
  "calculateSatellitePasses e rnd now sat location launch boosterInfo =
     (case twoline2satrec e (sat_tle1 sat) (sat_tle2 sat) of
        None \<Rightarrow> Inl (Error (''Failed to parse TLE for satellite '' @ sat_id sat))
      | Some satrec \<Rightarrow>
          (let observerGd = \<lparr>longitude = degreesToRadians (lon location),
                              latitude = degreesToRadians (lat location),
                              height = 1 / 10\<rparr>;
               endTime = now + PREDICTION_DAYS * 24 * 60 * 60 * 1000;
               s = scanLoop e rnd sat launch boosterInfo satrec observerGd endTime
                     \<lparr>sc_currentTime = now, sc_inPass = False, sc_passStart = None,
                      sc_passPoints = [], sc_passes = []\<rparr>
           in Inr (if sc_inPass s then closePass rnd sat launch boosterInfo s else sc_passes s)))"

section \<open>Scoring\<close>

definition calculateTwilightBonus :: "'s env \<Rightarrow> Date \<Rightarrow> real" where
  "calculateTwilightBonus e time =
     (let hour = getHours e time
      in if (hour \<ge> 6 \<and> hour \<le> 7) \<or> (hour \<ge> 19 \<and> hour \<le> 20) then 1
         else if (hour \<ge> 5 \<and> hour \<le> 8) \<or> (hour \<ge> 18 \<and> hour \<le> 21) then 7 / 10
         else if (hour \<ge> 4 \<and> hour \<le> 9) \<or> (hour \<ge> 17 \<and> hour \<le> 22) then 4 / 10
         else 1 / 10)"

definition calculateTrainScore :: "'s env \<Rightarrow> Pass \<Rightarrow> LaunchLite \<Rightarrow> real" where
  "calculateTrainScore e pass launch =
     (let launchDate = date_utc launch;
          passDate = pass_peak pass;
          daysSinceDeploy = real_of_int (passDate - launchDate) / (1000 * 60 * 60 * 24);
          deployScore = 1 / (1 + daysSinceDeploy);
          phaseBrightness = 1 - phaseAngleDeg pass / 180;
          elevationScore = maxElDeg pass / 90;
          twilightBonus = calculateTwilightBonus e passDate
      in w1 DEFAULT_WEIGHTS * deployScore + w2 DEFAULT_WEIGHTS * phaseBrightness
         + w3 DEFAULT_WEIGHTS * elevationScore + w4 DEFAULT_WEIGHTS * twilightBonus)"

text \<open>
  \<open>Array.prototype.sort\<close> is a stable sort by the comparator: an element stays before
  another unless the comparator puts it after. The comparator of the two sorts of passes
  is \<open>(a, b) => b.score - a.score\<close>.
\<close>

fun insertBy :: "('a \<Rightarrow> 'a \<Rightarrow> real) \<Rightarrow> 'a \<Rightarrow> 'a list \<Rightarrow> 'a list" where
  "insertBy cmp a [] = [a]"
| "insertBy cmp a (b # bs) = (if cmp a b \<le> 0 then a # b # bs else b # insertBy cmp a bs)"

definition sortBy :: "('a \<Rightarrow> 'a \<Rightarrow> real) \<Rightarrow> 'a list \<Rightarrow> 'a list" where
  "sortBy cmp xs = foldr (insertBy cmp) xs []"

definition byScoreDesc :: "Pass \<Rightarrow> Pass \<Rightarrow> real" where
  "byScoreDesc a b = score b - score a"

section \<open>Passes of one launch\<close>

text \<open>
  \<open>rnd j k\<close> is the \<open>k\<close>-th draw of \<open>Math.random()\<close> during the scan of the \<open>j\<close>-th
  sampled satellite. A satellite whose scan throws is skipped. \<open>launch.cores[0]?.core\<close>
  is truthy for a non-empty string; a failed booster lookup leaves \<open>null\<close>.
\<close>

definition lookupBooster :: "'s env \<Rightarrow> LaunchLite \<Rightarrow> BoosterInfo option" where
  "lookupBooster e launch =
     (case cores launch of
        [] \<Rightarrow> None
      | c # _ \<Rightarrow>
          (case core c of
             None \<Rightarrow> None
           | Some core0 \<Rightarrow>
               if core0 = [] then None
               else (case getBoosterInfo e core0 of Inl _ \<Rightarrow> None | Inr b \<Rightarrow> b)))"

definition calculatePasses ::
  "'s env \<Rightarrow> (nat \<Rightarrow> nat \<Rightarrow> real) \<Rightarrow> Date \<Rightarrow> StarlinkSat list \<Rightarrow> UserLocation \<Rightarrow> LaunchLite
   \<Rightarrow> Pass list" where
  "calculatePasses e rnd now satellites location launch =
     (let validSatellites =
            filter (\<lambda>sat. isValidTle (sat_tle1 sat) (sat_tle2 sat) \<and> isTleFresh e now (sat_epoch sat))
              satellites
      in if length validSatellites = 0 then []
         else
           (let sampleSatellites =
                  map snd (filter (\<lambda>(index, _). index mod 3 = 0) (enumerate 0 validSatellites));
                boosterInfo = lookupBooster e launch;
                passes =
                  concat (map (\<lambda>(j, sat).
                                 case calculateSatellitePasses e (rnd j) now sat location launch
                                        boosterInfo of
                                   Inl _ \<Rightarrow> []
                                 | Inr satPasses \<Rightarrow> satPasses)
                            (enumerate 0 (take 10 sampleSatellites)));
                scoredPasses = map (\<lambda>pass. pass\<lparr>score := calculateTrainScore e pass launch\<rparr>) passes
            in sortBy byScoreDesc scoredPasses))"

section \<open>Providers\<close>
















section \<open>Prediction engine\<close>

record PredictionCache =
  pc_location :: UserLocation
  pc_passes :: "Pass list"
  pc_timestamp :: Date
  pc_expiresAt :: Date

text \<open>A JavaScript \<open>Map\<close> that is iterated is a list of entries in insertion order.\<close>

type_synonym satelliteMap = "(string \<times> StarlinkSat list) list"

record LaunchCache =
  lc_launches :: "LaunchLite list"
  lc_satellites :: satelliteMap
  lc_timestamp :: Date
  lc_expiresAt :: Date

text \<open>
  The cache key is the string \<open>`${lat},${lon}`\<close> of the two rounded numbers; it is held
  as the pair of these numbers, which the string determines and is determined by.
\<close>

type_synonym cacheKey = "real \<times> real"

text \<open>
  The fields of the engine. The constructor runs \<open>initialize\<close> to its end, so
  \<open>initialized\<close> is true in every state that a caller sees and is left out.
\<close>

record engine =
  predictionCache :: "cacheKey \<rightharpoonup> PredictionCache"
  launchCache :: "LaunchCache option"

definition CACHE_DURATION_MS :: int where
  "CACHE_DURATION_MS = 15 * 60 * 1000"

definition LAUNCH_CACHE_DURATION_MS :: int where
  "LAUNCH_CACHE_DURATION_MS = 60 * 60 * 1000"

fun mapSet :: "'k \<Rightarrow> 'v \<Rightarrow> ('k \<times> 'v) list \<Rightarrow> ('k \<times> 'v) list" where
  "mapSet k v [] = [(k, v)]"
| "mapSet k v ((k', v') # m) = (if k' = k then (k, v) # m else (k', v') # mapSet k v m)"

definition mapGet :: "('k \<times> 'v) list \<Rightarrow> 'k \<Rightarrow> 'v option" where
  "mapGet m k = map_of m k"

text \<open>\<open>Math.round\<close> rounds to the nearest integer, a half upwards.\<close>

definition Math_round :: "real \<Rightarrow> real" where
  "Math_round v = of_int \<lfloor>v + 1 / 2\<rfloor>"

definition generateLocationCacheKey :: "UserLocation \<Rightarrow> cacheKey" where
  "generateLocationCacheKey location =
     (let lat' = Math_round (lat location * 100) / 100;
          lon' = Math_round (lon location * 100) / 100
      in (lat', lon'))"

definition cleanupCache :: "Date \<Rightarrow> engine \<Rightarrow> engine" where
  "cleanupCache now st =
     st\<lparr>predictionCache :=
          (\<lambda>key. case predictionCache st key of
                    None \<Rightarrow> None
                  | Some cache \<Rightarrow> if pc_expiresAt cache \<le> now then None else Some cache),
        launchCache :=
          (case launchCache st of
             None \<Rightarrow> None
           | Some lc \<Rightarrow> if lc_expiresAt lc \<le> now then None else Some lc)\<rparr>"

definition filterValidSatellites :: "'s env \<Rightarrow> Date \<Rightarrow> StarlinkSat list \<Rightarrow> StarlinkSat list" where
  "filterValidSatellites e now satellites =
     filter (\<lambda>sat. if \<not> isValidTle (sat_tle1 sat) (sat_tle2 sat) then False
                    else if \<not> isTleFresh e now (sat_epoch sat) then False
                    else True)
       satellites"

text \<open>
  The satellites of the launches are fetched one launch after the other; a fetch that
  fails stores the empty list.
\<close>

definition fetchSatelliteMap :: "'s env \<Rightarrow> LaunchLite list \<Rightarrow> satelliteMap" where
  "fetchSatelliteMap e launches =
     foldl (\<lambda>m launch.
               case getStarlinkSatellites e (launch_id launch) of
                 Inr satellites \<Rightarrow> mapSet (launch_id launch) satellites m
               | Inl _ \<Rightarrow> mapSet (launch_id launch) [] m)
       [] launches"

text \<open>\<open>this.launchCache && this.launchCache.expiresAt > new Date()\<close>\<close>

definition liveLaunchCache :: "Date \<Rightarrow> engine \<Rightarrow> LaunchCache option" where
  "liveLaunchCache now st =
     (case launchCache st of
        None \<Rightarrow> None
      | Some lc \<Rightarrow> if lc_expiresAt lc > now then Some lc else None)"

definition getLaunchAndSatelliteData ::
  "'s env \<Rightarrow> Date \<Rightarrow> engine \<Rightarrow> (error + LaunchLite list \<times> satelliteMap) \<times> engine" where
  "getLaunchAndSatelliteData e now st =
     (case liveLaunchCache now st of
        Some lc \<Rightarrow> (Inr (lc_launches lc, lc_satellites lc), st)
      | None \<Rightarrow>
          (case getRecentStarlinkLaunches e now of
             Inl err \<Rightarrow> (Inl err, st)
           | Inr launches \<Rightarrow>
               (let satelliteMap = fetchSatelliteMap e launches
                in (Inr (launches, satelliteMap),
                    st\<lparr>launchCache := Some \<lparr>lc_launches = launches,
                                           lc_satellites = satelliteMap,
                                           lc_timestamp = now,
                                           lc_expiresAt = now + LAUNCH_CACHE_DURATION_MS\<rparr>\<rparr>))))"

text \<open>
  The body of the function that \<open>calculateFreshPredictions\<close> maps over a batch. The
  array \<open>satelliteMap.get(launch.id)\<close> is truthy when it is there, also when it is empty.
  \<open>calculatePasses\<close> does not throw, so the \<open>catch\<close> around it is never entered.
\<close>

definition processLaunch ::
  "'s env \<Rightarrow> (nat \<Rightarrow> nat \<Rightarrow> real) \<Rightarrow> Date \<Rightarrow> satelliteMap \<Rightarrow> UserLocation \<Rightarrow> LaunchLite
   \<Rightarrow> Pass list" where
  "processLaunch e rnd now satelliteMap location launch =
     (let satellites = (case mapGet satelliteMap (launch_id launch) of
                          None \<Rightarrow> []
                        | Some sats \<Rightarrow> sats)
      in if length satellites = 0 then []
         else (let validSatellites = filterValidSatellites e now satellites
               in if length validSatellites = 0 then []
                  else calculatePasses e rnd now validSatellites location launch))"

text \<open>The batches \<open>launches.slice(i, i + concurrencyLimit)\<close> for \<open>i = 0, 3, 6, ...\<close>\<close>

function batches :: "nat \<Rightarrow> 'a list \<Rightarrow> 'a list list" where
  "batches n xs = (if xs = [] \<or> n = 0 then [] else take n xs # batches n (drop n xs))"
  by pat_completeness auto
termination
  by (relation "measure (\<lambda>(n, xs). length xs)") auto

declare batches.simps [simp del]

text \<open>
  \<open>rnd i j k\<close> is the \<open>k\<close>-th draw during the scan of the \<open>j\<close>-th sampled satellite of
  the \<open>i\<close>-th launch. The launches of a batch run concurrently and each appends its
  passes when it is done; the passes are collected here in the order of the launches.
  The argument \<open>weights\<close> is not read.
\<close>

definition calculateFreshPredictions ::
  "'s env \<Rightarrow> (nat \<Rightarrow> nat \<Rightarrow> nat \<Rightarrow> real) \<Rightarrow> Date \<Rightarrow> engine \<Rightarrow> UserLocation
   \<Rightarrow> PredictionWeights option \<Rightarrow> (error + Pass list) \<times> engine" where
  "calculateFreshPredictions e rnd now st location weights =
     (case getLaunchAndSatelliteData e now st of
        (Inl err, st1) \<Rightarrow> (Inl err, st1)
      | (Inr (launches, satelliteMap), st1) \<Rightarrow>
          if length launches = 0 then (Inr [], st1)
          else
            (let concurrencyLimit = 3;
                 allPasses =
                   concat (map (\<lambda>batch.
                                  concat (map (\<lambda>(i, launch).
                                                 processLaunch e (rnd i) now satelliteMap location launch)
                                            batch))
                             (batches concurrencyLimit (enumerate 0 launches)))
             in (Inr (take 20 (sortBy byScoreDesc allPasses)), st1)))"

text \<open>
  The \<open>try\<close> block of \<open>getPredictions\<close> and its \<open>catch\<close>: \<open>cached\<close> is the entry read
  before, of any age.
\<close>

definition computeAndStore ::
  "'s env \<Rightarrow> (nat \<Rightarrow> nat \<Rightarrow> nat \<Rightarrow> real) \<Rightarrow> Date \<Rightarrow> engine \<Rightarrow> UserLocation
   \<Rightarrow> PredictionWeights option \<Rightarrow> cacheKey \<Rightarrow> PredictionCache option
   \<Rightarrow> (error + Pass list) \<times> engine" where
  "computeAndStore e rnd now st location weights cacheKey cached =
     (case calculateFreshPredictions e rnd now st location weights of
        (Inr passes, st1) \<Rightarrow>
          (let st2 = st1\<lparr>predictionCache :=
                          (predictionCache st1)
                            (cacheKey \<mapsto> \<lparr>pc_location = location,
                                          pc_passes = passes,
                                          pc_timestamp = now,
                                          pc_expiresAt = now + CACHE_DURATION_MS\<rparr>)\<rparr>
           in (Inr passes, cleanupCache now st2))
      | (Inl err, st1) \<Rightarrow>
          (case cached of
             Some c \<Rightarrow> (Inr (pc_passes c), st1)
           | None \<Rightarrow> (Inl err, st1)))"

definition getPredictions ::
  "'s env \<Rightarrow> (nat \<Rightarrow> nat \<Rightarrow> nat \<Rightarrow> real) \<Rightarrow> Date \<Rightarrow> engine \<Rightarrow> UserLocation
   \<Rightarrow> PredictionWeights option \<Rightarrow> (error + Pass list) \<times> engine" where
  "getPredictions e rnd now st location weights =
     (let cacheKey = generateLocationCacheKey location;
          cached = predictionCache st cacheKey
      in case cached of
           Some c \<Rightarrow>
             if pc_expiresAt c > now then (Inr (pc_passes c), st)
             else computeAndStore e rnd now st location weights cacheKey cached
         | None \<Rightarrow> computeAndStore e rnd now st location weights cacheKey cached)"

section \<open>Prediction quality\<close>

datatype quality = excellent | good | fair | poor

record QualityReport =
  quality :: quality
  factors :: "string list"
  recommendations :: "string list"

text \<open>
  The three counters of the loop over the satellite map. \<open>staleTles / validSatellites\<close>
  is \<open>0 / 0\<close> when no satellite is valid: NaN in the source, 0 here, and neither is
  greater than 0.3.
\<close>

definition totalSatellitesOf :: "satelliteMap \<Rightarrow> nat" where
  "totalSatellitesOf m = sum_list (map (\<lambda>(key, satellites). length satellites) m)"

definition validSatellitesOf :: "satelliteMap \<Rightarrow> nat" where
  "validSatellitesOf m =
     sum_list (map (\<lambda>(key, satellites).
                      length (filter (\<lambda>sat. isValidTle (sat_tle1 sat) (sat_tle2 sat)) satellites)) m)"

definition staleTlesOf :: "'s env \<Rightarrow> Date \<Rightarrow> satelliteMap \<Rightarrow> nat" where
  "staleTlesOf e now m =
     sum_list (map (\<lambda>(key, satellites).
                      length (filter (\<lambda>sat. isValidTle (sat_tle1 sat) (sat_tle2 sat)
                                             \<and> \<not> isTleFresh e now (sat_epoch sat)) satellites)) m)"

text \<open>
  The state of the assessment: the score and the two lists that the \<open>try\<close> block of
  \<open>getPredictionQuality\<close> builds, one factor after the other.
\<close>

record assessment =
  qualityScore :: int
  a_factors :: "string list"
  a_recommendations :: "string list"

definition launchFactor :: "Date \<Rightarrow> LaunchLite list \<Rightarrow> assessment \<Rightarrow> assessment" where
  "launchFactor now launches a =
     (case launches of
        [] \<Rightarrow> a\<lparr>a_factors := a_factors a @ [''No recent Starlink launches found''],
                qualityScore := qualityScore a - 50,
                a_recommendations := a_recommendations a
                                     @ [''Check back after the next Starlink launch'']\<rparr>
      | launch0 # _ \<Rightarrow>
          (let newestLaunch = date_utc launch0;
               daysSinceNewest = real_of_int (now - newestLaunch) / (1000 * 60 * 60 * 24)
           in if daysSinceNewest > 7 then
                a\<lparr>a_factors := a_factors a @ [''Most recent launch is over a week old''],
                  qualityScore := qualityScore a - 20\<rparr>
              else if daysSinceNewest < 2 then
                a\<lparr>a_factors := a_factors a @ [''Very recent launch available''],
                  qualityScore := qualityScore a + 10\<rparr>
              else a))"

definition tleFactor :: "'s env \<Rightarrow> Date \<Rightarrow> satelliteMap \<Rightarrow> assessment \<Rightarrow> assessment" where
  "tleFactor e now satelliteMap a =
     (let totalSatellites = totalSatellitesOf satelliteMap;
          validSatellites = validSatellitesOf satelliteMap;
          staleTles = staleTlesOf e now satelliteMap
      in if totalSatellites > 0 then
           (let validRatio = real validSatellites / real totalSatellites;
                staleRatio = real staleTles / real validSatellites;
                a1 = (if validRatio < 5 / 10 then
                        a\<lparr>a_factors := a_factors a @ [''Many satellites have invalid orbital data''],
                          qualityScore := qualityScore a - 30,
                          a_recommendations := a_recommendations a
                            @ [''Predictions may be less accurate due to data quality issues'']\<rparr>
                      else a)
            in if staleRatio > 3 / 10 then
                 a1\<lparr>a_factors := a_factors a1 @ [''Some orbital data is outdated''],
                    qualityScore := qualityScore a1 - 15,
                    a_recommendations := a_recommendations a1
                      @ [''Predictions accuracy may decrease over time'']\<rparr>
               else a1)
         else a)"

definition locationFactor :: "UserLocation \<Rightarrow> assessment \<Rightarrow> assessment" where
  "locationFactor location a =
     (let absLat = \<bar>lat location\<bar>
      in if absLat > 60 then
           a\<lparr>a_factors := a_factors a @ [''High latitude location''],
             qualityScore := qualityScore a + 5,
             a_recommendations := a_recommendations a
               @ [''Excellent visibility at high latitudes'']\<rparr>
         else if absLat < 30 then
           a\<lparr>a_factors := a_factors a @ [''Low latitude location''],
             qualityScore := qualityScore a - 5,
             a_recommendations := a_recommendations a
               @ [''Fewer passes visible at low latitudes'']\<rparr>
         else a)"

definition qualityLevel :: "int \<Rightarrow> quality" where
  "qualityLevel qualityScore' =
     (if qualityScore' \<ge> 90 then excellent
      else if qualityScore' \<ge> 70 then good
      else if qualityScore' \<ge> 50 then fair
      else poor)"

definition getPredictionQuality ::
  "'s env \<Rightarrow> Date \<Rightarrow> engine \<Rightarrow> UserLocation \<Rightarrow> (error + QualityReport) \<times> engine" where
  "getPredictionQuality e now st location =
     (let a0 = \<lparr>qualityScore = 100, a_factors = [], a_recommendations = []\<rparr>
      in case getLaunchAndSatelliteData e now st of
           (Inr (launches, satelliteMap), st1) \<Rightarrow>
             (let a1 = launchFactor now launches a0;
                  a2 = tleFactor e now satelliteMap a1;
                  a3 = locationFactor location a2
              in (Inr \<lparr>quality = qualityLevel (qualityScore a3),
                       factors = a_factors a3,
                       recommendations = a_recommendations a3\<rparr>, st1))
         | (Inl err, st1) \<Rightarrow>
             (Inr \<lparr>quality = poor,
                   factors = [''Unable to assess prediction quality''],
                   recommendations = [''Check your internet connection and try again'']\<rparr>,
              st1))"

section \<open>Samples and buffers of the pass finder\<close>

text \<open>
  A point is a visible sample of the scan when the propagation at its time gives a
  position, the point is what the loop computes from it, and the loop's test
  \<open>isVisible && elevation > MIN_ELEVATION_DEG\<close> holds of it.
\<close>

definition visibleSample :: "'s env \<Rightarrow> 's \<Rightarrow> GeodeticLocation \<Rightarrow> point \<Rightarrow> bool" where
  "visibleSample e satrec observerGd pt =
     (case propagate e satrec (pt_time pt) of
        None \<Rightarrow> False
      | Some positionEci \<Rightarrow>
          pt = lookPoint e observerGd positionEci (pt_time pt)
          \<and> isSatelliteVisible e positionEci observerGd (pt_time pt) (pt_elevation pt)
          \<and> pt_elevation pt > MIN_ELEVATION_DEG)"

text \<open>
  A buffer of the scan from \<open>now\<close> to \<open>endTime\<close>: visible samples on the 30 second
  grid, in strictly increasing order of time.
\<close>

definition bufferOk ::
  "'s env \<Rightarrow> 's \<Rightarrow> GeodeticLocation \<Rightarrow> Date \<Rightarrow> Date \<Rightarrow> point list \<Rightarrow> bool" where
  "bufferOk e satrec observerGd now endTime points =
     (list_all (\<lambda>q. visibleSample e satrec observerGd q
                     \<and> now \<le> pt_time q \<and> pt_time q \<le> endTime
                     \<and> (pt_time q - now) mod 30000 = 0) points
      \<and> sorted_wrt (<) (map pt_time points))"

text \<open>A pass was emitted from a buffer of at least two samples.\<close>

definition emittedFrom ::
  "'s env \<Rightarrow> 's \<Rightarrow> GeodeticLocation \<Rightarrow> Date \<Rightarrow> Date \<Rightarrow> StarlinkSat \<Rightarrow> LaunchLite
   \<Rightarrow> BoosterInfo option \<Rightarrow> point list \<Rightarrow> Pass \<Rightarrow> bool" where
  "emittedFrom e satrec observerGd now endTime sat launch boosterInfo points pass =
     (2 \<le> length points
      \<and> bufferOk e satrec observerGd now endTime points
      \<and> (\<exists>rand. createPassFromPoints sat launch (pt_time (hd points)) points boosterInfo rand
                  = Some pass))"

text \<open>The invariant of the loop of \<open>calculateSatellitePasses\<close>.\<close>

definition scanInv ::
  "'s env \<Rightarrow> 's \<Rightarrow> GeodeticLocation \<Rightarrow> Date \<Rightarrow> Date \<Rightarrow> StarlinkSat \<Rightarrow> LaunchLite
   \<Rightarrow> BoosterInfo option \<Rightarrow> scan \<Rightarrow> bool" where
  "scanInv e satrec observerGd now endTime sat launch boosterInfo s =
     (now \<le> sc_currentTime s
      \<and> (sc_currentTime s - now) mod 30000 = 0
      \<and> bufferOk e satrec observerGd now endTime (sc_passPoints s)
      \<and> list_all (\<lambda>q. pt_time q < sc_currentTime s) (sc_passPoints s)
      \<and> (sc_inPass s \<longrightarrow>
            sc_passPoints s \<noteq> [] \<and> sc_passStart s = Some (pt_time (hd (sc_passPoints s))))
      \<and> list_all (\<lambda>p. \<exists>points. emittedFrom e satrec observerGd now endTime sat launch
                                    boosterInfo points p) (sc_passes s))"

section \<open>The merge of a fresh computation\<close>

text \<open>
  The passes of all launches, launch after launch: what \<open>allPasses\<close> holds in
  \<open>calculateFreshPredictions\<close> before it is sorted and cut.
\<close>

definition mergedPasses ::
  "'s env \<Rightarrow> (nat \<Rightarrow> nat \<Rightarrow> nat \<Rightarrow> real) \<Rightarrow> Date \<Rightarrow> satelliteMap \<Rightarrow> UserLocation
   \<Rightarrow> LaunchLite list \<Rightarrow> Pass list" where
  "mergedPasses e rnd now satelliteMap location launches =
     concat (map (\<lambda>(i, launch). processLaunch e (rnd i) now satelliteMap location launch)
               (enumerate 0 launches))"

section \<open>States of the engine\<close>

text \<open>
  The invariant of the snapshot cache: every key of the satellite map is the identifier
  of a launch of the snapshot. It holds of a new engine (the field initialisers) and
  after \<open>clearCache\<close>, and every operation keeps it.
\<close>

definition snapshotOk :: "LaunchLite list \<Rightarrow> satelliteMap \<Rightarrow> bool" where
  "snapshotOk launches m = (set (map fst m) \<subseteq> set (map launch_id launches))"

definition engineOk :: "engine \<Rightarrow> bool" where
  "engineOk st =
     (case launchCache st of
        None \<Rightarrow> True
      | Some lc \<Rightarrow> snapshotOk (lc_launches lc) (lc_satellites lc))"

definition newEngine :: engine where
  "newEngine = \<lparr>predictionCache = Map.empty, launchCache = None\<rparr>"

definition clearCache :: "engine \<Rightarrow> engine" where
  "clearCache st = st\<lparr>predictionCache := Map.empty, launchCache := None\<rparr>"

section \<open>An example run\<close>

text \<open>
  A host in the UTC time zone during 1970 and a satellite above the observer at two
  instants after midnight of 22 March 1970, the 81st day of the year, when the model sun
  stands on the x axis and the observer at latitude 0 has the sun at -90 degrees.
\<close>

definition exampleNow :: Date where
  "exampleNow = 6912000000"

definition exampleEpoch :: string where
  "exampleEpoch = ''1970-03-22T00:00:00.000Z''"

definition exampleSat :: StarlinkSat where
  "exampleSat =
     \<lparr>sat_id = ''sat-1'',
      sat_launch = ''launch-1'',
      sat_tle1 = ''1 44713U 19074A   70081.00000000  .00000000  00000-0  00000-0 0  9990'',
      sat_tle2 = ''2 44713  53.0000 100.0000 0001000  90.0000 270.0000 15.05000000    10'',
      sat_epoch = exampleEpoch\<rparr>"

definition exampleLaunch :: LaunchLite where
  "exampleLaunch =
     \<lparr>launch_id = ''launch-1'',
      launch_name = ''Starlink Group 1'',
      date_utc = 6739200000,
      cores = [],
      launchpad = ''pad-1''\<rparr>"

definition exampleLocation :: UserLocation where
  "exampleLocation = \<lparr>lat = 0, lon = 0, loc_name = None, timezone = None\<rparr>"

definition midLatitudeLocation :: UserLocation where
  "midLatitudeLocation = \<lparr>lat = 45, lon = 0, loc_name = None, timezone = None\<rparr>"

definition examplePosition :: EciVec3 where
  "examplePosition = \<lparr>eci_x = 7000, eci_y = 0, eci_z = 0\<rparr>"

definition exampleEnv :: "unit env" where
  "exampleEnv =
     \<lparr>Date_parse = (\<lambda>s. if s = exampleEpoch then Some exampleNow else None),
      Date_local = (\<lambda>y m d. - 86400000),
      getFullYear = (\<lambda>t. 1970),
      getHours = (\<lambda>t. (t div 3600000) mod 24),
      twoline2satrec = (\<lambda>line1 line2. Some ()),
      propagate = (\<lambda>satrec t. if t = exampleNow \<or> t = exampleNow + 30000
                                then Some examplePosition else None),
      gstime = (\<lambda>t. if t = exampleNow then 0 else 1),
      ecfToLookAngles = (\<lambda>observerGd positionEci gmst.
                           \<lparr>la_azimuth = gmst * pi,
                            la_elevation = (if gmst = 0 then pi / 4 else pi / 3),
                            la_rangeSat = 1000\<rparr>),
      getRecentStarlinkLaunches = (\<lambda>now. Inr [exampleLaunch]),
      getStarlinkSatellites = (\<lambda>launch. Inr [exampleSat]),
      getBoosterInfo = (\<lambda>core0. Inr None)\<rparr>"

text \<open>The observer of the example location and the two samples of the example scan.\<close>

definition exampleObserver :: GeodeticLocation where
  "exampleObserver = \<lparr>longitude = 0, latitude = 0, height = 1 / 10\<rparr>"

definition examplePoint1 :: point where
  "examplePoint1 = \<lparr>pt_time = exampleNow, pt_elevation = 45, pt_azimuth = 0, pt_range = 1000\<rparr>"

definition examplePoint2 :: point where
  "examplePoint2 =
     \<lparr>pt_time = exampleNow + 30000, pt_elevation = 60, pt_azimuth = 180, pt_range = 1000\<rparr>"

text \<open>The same host when the launch catalogue is empty, and when it cannot be reached.\<close>

definition quietEnv :: "unit env" where
  "quietEnv = exampleEnv\<lparr>getRecentStarlinkLaunches := (\<lambda>now. Inr [])\<rparr>"

definition failingEnv :: "unit env" where
  "failingEnv = exampleEnv\<lparr>getRecentStarlinkLaunches := (\<lambda>now. Inl (Error ''unavailable''))\<rparr>"

definition examplePass :: Pass where
  "examplePass =
     \<lparr>satId = ''sat-1'',
      launchId = ''launch-1'',
      pass_start = exampleNow,
      pass_peak = exampleNow + 30000,
      pass_end = exampleNow + 30000,
      maxElDeg = 60,
      phaseAngleDeg = 60,
      score = 0,
      azStart = 0,
      azEnd = 180,
      launchName = Some ''Starlink Group 1'',
      pass_boosterInfo = None\<rparr>"

text \<open>The example pass with the score of its launch.\<close>

definition exampleScored :: Pass where
  "exampleScored = examplePass\<lparr>score := calculateTrainScore exampleEnv examplePass exampleLaunch\<rparr>"

text \<open>
  A busier catalogue on the same host: eleven launches, the oldest first, launch \<open>i\<close>
  deployed \<open>i\<close> days before the peak of the example pass, each with four satellites,
  of which the scan samples the first and the fourth.
\<close>

definition busySat :: "nat \<Rightarrow> StarlinkSat" where
  "busySat j = exampleSat\<lparr>sat_id := ''sat-'' @ replicate j (CHR ''i'')\<rparr>"

definition busySats :: "StarlinkSat list" where
  "busySats = [busySat 0, busySat 1, busySat 2, busySat 3]"

definition busyLaunch :: "nat \<Rightarrow> LaunchLite" where
  "busyLaunch i =
     \<lparr>launch_id = ''launch-'' @ replicate i (CHR ''i''),
      launch_name = ''Starlink Group'',
      date_utc = exampleNow + 30000 - int i * 86400000,
      cores = [],
      launchpad = ''pad-1''\<rparr>"

definition busyLaunches :: "LaunchLite list" where
  "busyLaunches =
     [busyLaunch 11, busyLaunch 10, busyLaunch 9, busyLaunch 8, busyLaunch 7, busyLaunch 6,
      busyLaunch 5, busyLaunch 4, busyLaunch 3, busyLaunch 2, busyLaunch 1]"

definition busyEnv :: "unit env" where
  "busyEnv = exampleEnv\<lparr>getRecentStarlinkLaunches := (\<lambda>now. Inr busyLaunches),
                        getStarlinkSatellites := (\<lambda>launch. Inr busySats)\<rparr>"

text \<open>The pass of satellite \<open>j\<close> with the score of launch \<open>i\<close>.\<close>

definition busyPass :: "nat \<Rightarrow> nat \<Rightarrow> Pass" where
  "busyPass j i =
     \<lparr>satId = ''sat-'' @ replicate j (CHR ''i''),
      launchId = ''launch-1'',
      pass_start = exampleNow,
      pass_peak = exampleNow + 30000,
      pass_end = exampleNow + 30000,
      maxElDeg = 60,
      phaseAngleDeg = 60,
      score = 9 / (20 * (1 + real i)) + 203 / 600,
      azStart = 0,
      azEnd = 180,
      launchName = Some ''Starlink Group'',
      pass_boosterInfo = None\<rparr>"

text \<open>
  The 22 passes of the busier catalogue in the order of the launches, and the 20 of them
  with the highest scores in descending order: the two passes of launch 11 are cut.
\<close>

definition busyMerged :: "Pass list" where
  "busyMerged =
     [busyPass 0 11, busyPass 3 11, busyPass 0 10, busyPass 3 10,
      busyPass 0 9, busyPass 3 9, busyPass 0 8, busyPass 3 8,
      busyPass 0 7, busyPass 3 7, busyPass 0 6, busyPass 3 6,
      busyPass 0 5, busyPass 3 5, busyPass 0 4, busyPass 3 4,
      busyPass 0 3, busyPass 3 3, busyPass 0 2, busyPass 3 2,
      busyPass 0 1, busyPass 3 1]"

definition busyTop :: "Pass list" where
  "busyTop =
     [busyPass 0 1, busyPass 3 1, busyPass 0 2, busyPass 3 2,
      busyPass 0 3, busyPass 3 3, busyPass 0 4, busyPass 3 4,
      busyPass 0 5, busyPass 3 5, busyPass 0 6, busyPass 3 6,
      busyPass 0 7, busyPass 3 7, busyPass 0 8, busyPass 3 8,
      busyPass 0 9, busyPass 3 9, busyPass 0 10, busyPass 3 10]"


text \<open>An engine whose only cache entry, for the example location, expired a minute ago.\<close>

definition staleEngine :: engine where
  "staleEngine =
     \<lparr>predictionCache =
        [generateLocationCacheKey exampleLocation \<mapsto>
           \<lparr>pc_location = exampleLocation,
            pc_passes = [examplePass],
            pc_timestamp = exampleNow - 960000,
            pc_expiresAt = exampleNow - 60000\<rparr>],
      launchCache = None\<rparr>"

section \<open>Properties of the TLE validator\<close>

lemma startsWith_prefix: "startsWith s p = prefix p s"
  by (auto simp: startsWith_def prefix_def) (metis append_take_drop_id)

text \<open>
  Claim C9. For all pairs of strings, \<open>isValidTle\<close> is true if and only if both lines
  are exactly 69 characters long, the first begins with "1 " and the second with "2 ".
\<close>

theorem isValidTle_iff:
  "isValidTle line1 line2 =
     (length line1 = 69 \<and> length line2 = 69 \<and> prefix ''1 '' line1 \<and> prefix ''2 '' line2)"
  by (auto simp: isValidTle_def startsWith_prefix)

theorem isValidTle_iff_witness:
  "isValidTle (sat_tle1 exampleSat) (sat_tle2 exampleSat)
   \<and> \<not> isValidTle (sat_tle1 exampleSat) (sat_tle1 exampleSat)
   \<and> \<not> isValidTle (sat_tle1 exampleSat) (butlast (sat_tle2 exampleSat))"
  using isValidTle_iff [of "sat_tle1 exampleSat" "sat_tle2 exampleSat"]
    isValidTle_iff [of "sat_tle1 exampleSat" "sat_tle1 exampleSat"]
    isValidTle_iff [of "sat_tle1 exampleSat" "butlast (sat_tle2 exampleSat)"]
  by (simp add: exampleSat_def)

text \<open>
  Claim C8. For an epoch string that parses to a timestamp, \<open>isTleFresh\<close> is true if and
  only if now minus the epoch is at most 48 hours, the boundary included; for an empty or
  unparseable epoch string it is false.
\<close>

theorem isTleFresh_iff:
  "(epoch \<noteq> [] \<and> Date_parse e epoch = Some t \<longrightarrow>
      isTleFresh e now epoch = (now - t \<le> 48 * 3600000))
   \<and> (epoch = [] \<or> Date_parse e epoch = None \<longrightarrow> isTleFresh e now epoch = False)"
  by (auto simp: isTleFresh_def Let_def field_simps)

theorem isTleFresh_iff_witness:
  "isTleFresh exampleEnv (exampleNow + 172800000) exampleEpoch
   \<and> \<not> isTleFresh exampleEnv (exampleNow + 172800001) exampleEpoch
   \<and> \<not> isTleFresh exampleEnv exampleNow ''''
   \<and> \<not> isTleFresh exampleEnv exampleNow ''yesterday''"
  using isTleFresh_iff [of exampleEpoch exampleEnv exampleNow "exampleNow + 172800000"]
    isTleFresh_iff [of exampleEpoch exampleEnv exampleNow "exampleNow + 172800001"]
    isTleFresh_iff [of "''''" exampleEnv exampleNow exampleNow]
    isTleFresh_iff [of "''yesterday''" exampleEnv exampleNow exampleNow]
  by (simp add: exampleEnv_def exampleEpoch_def)

section \<open>Properties of the illumination model\<close>

lemma sun_magnitude:
  "sqrt ((eci_x (calculateSunPositionEci e t))\<^sup>2 + (eci_y (calculateSunPositionEci e t))\<^sup>2
         + (eci_z (calculateSunPositionEci e t))\<^sup>2) = 1495978707 / 10"
proof -
  have h: "(d * cos a)\<^sup>2 + (d * sin a)\<^sup>2 + 0\<^sup>2 = d\<^sup>2" for d a :: real
  proof -
    have "(d * cos a)\<^sup>2 + (d * sin a)\<^sup>2 = d\<^sup>2 * ((cos a)\<^sup>2 + (sin a)\<^sup>2)"
      by (simp only: power_mult_distrib distrib_left)
    then have "(d * cos a)\<^sup>2 + (d * sin a)\<^sup>2 = d\<^sup>2"
      by (simp only: sin_cos_squared_add2 mult_1_right)
    then show ?thesis by simp
  qed
  have "sqrt ((eci_x (calculateSunPositionEci e t))\<^sup>2 + (eci_y (calculateSunPositionEci e t))\<^sup>2
         + (eci_z (calculateSunPositionEci e t))\<^sup>2) = sqrt ((1495978707 / 10)\<^sup>2)"
    unfolding calculateSunPositionEci_def Let_def
    by (simp only: EciVec3.select_convs h)
  also have "\<dots> = 1495978707 / 10"
    by simp
  finally show ?thesis .
qed

lemma quotient_positive_iff:
  fixes d m :: real
  assumes "m = sqrt (a\<^sup>2 + b\<^sup>2 + c\<^sup>2)" and "d = a * u + b * v + c * w"
  shows "(0 < d / m) = (0 < d)"
proof (cases "m = 0")
  case True
  with assms(1) have z: "a\<^sup>2 + b\<^sup>2 + c\<^sup>2 = 0" by simp
  have "0 \<le> a\<^sup>2" "0 \<le> b\<^sup>2" "0 \<le> c\<^sup>2" by simp_all
  with z have "a\<^sup>2 = 0" "b\<^sup>2 = 0" "c\<^sup>2 = 0" by linarith+
  then have "a = 0" "b = 0" "c = 0" by simp_all
  with assms(2) True show ?thesis by simp
next
  case False
  moreover have "0 \<le> m" using assms(1) by simp
  ultimately have "0 < m" by simp
  then show ?thesis by (simp add: zero_less_divide_iff)
qed

lemma isSatelliteInSunlight_dot:
  "isSatelliteInSunlight e sat t =
     (0 < eci_x sat * eci_x (calculateSunPositionEci e t)
          + eci_y sat * eci_y (calculateSunPositionEci e t)
          + eci_z sat * eci_z (calculateSunPositionEci e t))"
proof -
  define sx where "sx = eci_x (calculateSunPositionEci e t)"
  define sy where "sy = eci_y (calculateSunPositionEci e t)"
  define sz where "sz = eci_z (calculateSunPositionEci e t)"
  define D :: real where "D = 1495978707 / 10"
  have D: "0 < D" by (simp add: D_def)
  have "isSatelliteInSunlight e sat t
        = (0 < (eci_x sat * (sx / D) + eci_y sat * (sy / D) + eci_z sat * (sz / D))
               / sqrt ((eci_x sat)\<^sup>2 + (eci_y sat)\<^sup>2 + (eci_z sat)\<^sup>2))"
    unfolding isSatelliteInSunlight_def Let_def sun_magnitude sx_def sy_def sz_def D_def
    by (rule refl)
  also have "\<dots> = (0 < eci_x sat * (sx / D) + eci_y sat * (sy / D) + eci_z sat * (sz / D))"
    by (rule quotient_positive_iff [OF refl refl])
  also have "eci_x sat * (sx / D) + eci_y sat * (sy / D) + eci_z sat * (sz / D)
             = (eci_x sat * sx + eci_y sat * sy + eci_z sat * sz) / D"
    by (simp add: add_divide_distrib)
  also have "(0 < (eci_x sat * sx + eci_y sat * sy + eci_z sat * sz) / D)
             = (0 < eci_x sat * sx + eci_y sat * sy + eci_z sat * sz)"
    using D by (simp add: zero_less_divide_iff)
  finally show ?thesis
    by (simp only: sx_def sy_def sz_def)
qed

lemma example_day:
  "getDayOfYear exampleEnv exampleNow = 81"
  "getDayOfYear exampleEnv (exampleNow + 30000) = 81"
  by (simp_all add: getDayOfYear_def exampleEnv_def exampleNow_def)

lemma example_clock:
  "getUTCHours exampleNow = 0" "getUTCMinutes exampleNow = 0"
  "getUTCHours (exampleNow + 30000) = 0" "getUTCMinutes (exampleNow + 30000) = 0"
  by (simp_all add: getUTCHours_def getUTCMinutes_def exampleNow_def)

lemma example_sun:
  assumes "getDayOfYear e t = 81"
  shows "calculateSunPositionEci e t = \<lparr>eci_x = 1495978707 / 10, eci_y = 0, eci_z = 0\<rparr>"
  using assms by (simp add: calculateSunPositionEci_def)

lemma example_sun_elevation:
  assumes "getDayOfYear e t = 81" and "getUTCHours t = 0" and "getUTCMinutes t = 0"
    and "latitude observerGd = 0"
  shows "calculateSunElevation e observerGd t = - 90"
proof -
  have "sin (2 * pi) = 0" by simp
  then have decl: "sin (((360 * (284 + real_of_int 81)) / 365 * pi) / 180) = 0"
    by simp
  have "cos (- pi) = - 1" by simp
  then have hour: "cos ((15 * ((0::real) - 12) * pi) / 180) = - 1"
    by simp
  show ?thesis
    using assms
    by (simp add: calculateSunElevation_def radiansToDegrees_def decl hour)
qed

text \<open>
  Claim C1. \<open>isSatelliteVisible\<close> is true if and only if the elevation exceeds the
  10 degree minimum, the satellite is sunlit (its position vector has a positive component
  along the approximated sun direction) and the observer's approximate sun elevation is at
  most -6 degrees; an elevation at or below 10 degrees gives false whatever the
  illumination is.
\<close>

theorem isSatelliteVisible_iff:
  "isSatelliteVisible e sat obs t el =
     (10 < el
      \<and> 0 < eci_x sat * eci_x (calculateSunPositionEci e t)
             + eci_y sat * eci_y (calculateSunPositionEci e t)
             + eci_z sat * eci_z (calculateSunPositionEci e t)
      \<and> calculateSunElevation e obs t \<le> - 6)
   \<and> (el \<le> 10 \<longrightarrow> isSatelliteVisible e sat obs t el = False)"
  by (auto simp: isSatelliteVisible_def Let_def MIN_ELEVATION_DEG_def CIVIL_TWILIGHT_ANGLE_def
      isSatelliteInSunlight_dot)

theorem isSatelliteVisible_iff_witness:
  "isSatelliteVisible exampleEnv examplePosition exampleObserver exampleNow 45
   \<and> \<not> isSatelliteVisible exampleEnv examplePosition exampleObserver exampleNow 5
   \<and> \<not> isSatelliteVisible exampleEnv examplePosition exampleObserver exampleNow 10
   \<and> \<not> isSatelliteVisible exampleEnv (examplePosition\<lparr>eci_x := - 7000\<rparr>) exampleObserver
         exampleNow 45"
proof -
  have sun: "calculateSunPositionEci exampleEnv exampleNow
             = \<lparr>eci_x = 1495978707 / 10, eci_y = 0, eci_z = 0\<rparr>"
    by (rule example_sun [OF example_day(1)])
  have dark: "calculateSunElevation exampleEnv exampleObserver exampleNow = - 90"
    by (rule example_sun_elevation [OF example_day(1) example_clock(1,2)])
       (simp add: exampleObserver_def)
  from isSatelliteVisible_iff [of exampleEnv examplePosition exampleObserver exampleNow 45]
    isSatelliteVisible_iff [of exampleEnv examplePosition exampleObserver exampleNow 5]
    isSatelliteVisible_iff [of exampleEnv examplePosition exampleObserver exampleNow 10]
    isSatelliteVisible_iff [of exampleEnv "examplePosition\<lparr>eci_x := - 7000\<rparr>" exampleObserver
      exampleNow 45]
  show ?thesis
    by (simp add: sun dark examplePosition_def)
qed

section \<open>Properties of the pass finder\<close>

lemma peak_elevation_fold:
  "pt_elevation (foldl (\<lambda>mx pt. if pt_elevation pt > pt_elevation mx then pt else mx) a xs)
   = fold max (map pt_elevation xs) (pt_elevation a)"
  by (induction xs arbitrary: a) (auto simp: max_def)

lemma peak_member:
  "foldl (\<lambda>mx pt. if pt_elevation pt > pt_elevation mx then pt else mx) a xs \<in> set (a # xs)"
proof (induction xs arbitrary: a)
  case Nil
  show ?case by simp
next
  case (Cons x xs)
  from Cons [of "if pt_elevation x > pt_elevation a then x else a"]
  show ?case by (auto split: if_splits)
qed

lemma peak_elevation_Max:
  assumes "points \<noteq> []"
  shows "pt_elevation (foldl (\<lambda>mx pt. if pt_elevation pt > pt_elevation mx then pt else mx)
                         (hd points) (tl points))
         = Max (pt_elevation ` set points)"
proof -
  from assms obtain a xs where p: "points = a # xs" by (cases points) auto
  have "Max (pt_elevation ` set points) = Max (set (pt_elevation a # map pt_elevation xs))"
    by (simp add: p)
  also have "\<dots> = fold max (map pt_elevation xs) (pt_elevation a)"
    by (rule Max.set_eq_fold)
  finally show ?thesis
    by (simp add: p peak_elevation_fold)
qed

lemma sorted_times_hd_last:
  assumes "sorted_wrt (<) (map pt_time points)" and "q \<in> set points"
  shows "pt_time (hd points) \<le> pt_time q \<and> pt_time q \<le> pt_time (last points)"
proof -
  from assms(2) obtain i where i: "i < length points" "q = points ! i"
    by (auto simp: in_set_conv_nth)
  then have ne: "points \<noteq> []" by auto
  have mono: "j \<le> k \<Longrightarrow> k < length points \<Longrightarrow> pt_time (points ! j) \<le> pt_time (points ! k)"
    for j k
  proof (cases "j = k")
    case True
    then show ?thesis by simp
  next
    case False
    assume "j \<le> k" "k < length points"
    with False have "j < k" "k < length (map pt_time points)" by auto
    with assms(1) have "map pt_time points ! j < map pt_time points ! k"
      by (rule sorted_wrt_nth_less)
    with \<open>j < k\<close> \<open>k < length points\<close> show ?thesis by simp
  qed
  have "pt_time (points ! 0) \<le> pt_time (points ! i)"
    using mono [of 0 i] i by simp
  moreover have "pt_time (points ! i) \<le> pt_time (points ! (length points - 1))"
    using mono [of i "length points - 1"] i by simp
  ultimately show ?thesis
    using ne i by (simp add: hd_conv_nth last_conv_nth)
qed

lemma createPassFromPoints_short:
  "length points < 2 \<Longrightarrow> createPassFromPoints sat launch start points boosterInfo rand = None"
  by (simp add: createPassFromPoints_def)

lemma createPassFromPoints_fields:
  assumes "createPassFromPoints sat launch start points boosterInfo rand = Some pass"
  shows "2 \<le> length points"
    and "pass_start pass = start"
    and "pass_end pass = pt_time (last points)"
    and "\<exists>q\<in>set points. pass_peak pass = pt_time q \<and> maxElDeg pass = pt_elevation q"
    and "maxElDeg pass = Max (pt_elevation ` set points)"
    and "azStart pass = pt_azimuth (hd points)"
    and "azEnd pass = pt_azimuth (last points)"
proof -
  let ?peak = "foldl (\<lambda>mx pt. if pt_elevation pt > pt_elevation mx then pt else mx)
                 (hd points) (tl points)"
  from assms show len: "2 \<le> length points"
    by (simp add: createPassFromPoints_def split: if_splits)
  then have ne: "points \<noteq> []" by auto
  from assms len have pass: "pass_start pass = start" "pass_end pass = pt_time (points ! (length points - 1))"
    "pass_peak pass = pt_time ?peak" "maxElDeg pass = pt_elevation ?peak"
    "azStart pass = pt_azimuth (points ! 0)" "azEnd pass = pt_azimuth (points ! (length points - 1))"
    by (auto simp: createPassFromPoints_def Let_def)
  show "pass_start pass = start" by (rule pass(1))
  show "pass_end pass = pt_time (last points)"
    using pass(2) ne by (simp add: last_conv_nth)
  have "?peak \<in> set (hd points # tl points)" by (rule peak_member)
  with ne have "?peak \<in> set points" by simp
  with pass(3,4) show "\<exists>q\<in>set points. pass_peak pass = pt_time q \<and> maxElDeg pass = pt_elevation q"
    by blast
  show "maxElDeg pass = Max (pt_elevation ` set points)"
    using pass(4) peak_elevation_Max [OF ne] by simp
  show "azStart pass = pt_azimuth (hd points)"
    using pass(5) ne by (simp add: hd_conv_nth)
  show "azEnd pass = pt_azimuth (last points)"
    using pass(6) ne by (simp add: last_conv_nth)
qed

lemma scanStep_skip:
  assumes "propagate e satrec (sc_currentTime s) = None"
  shows "scanStep e rnd sat launch boosterInfo satrec observerGd s
         = s\<lparr>sc_currentTime := sc_currentTime s + 30000\<rparr>"
  using assms by (simp add: scanStep_def PREDICTION_STEP_SECONDS_def)

lemma scanStep_visible:
  assumes "propagate e satrec (sc_currentTime s) = Some positionEci"
    and "pt = lookPoint e observerGd positionEci (sc_currentTime s)"
    and "isSatelliteVisible e positionEci observerGd (sc_currentTime s) (pt_elevation pt)"
    and "pt_elevation pt > MIN_ELEVATION_DEG"
  shows "scanStep e rnd sat launch boosterInfo satrec observerGd s
         = (if sc_inPass s
            then s\<lparr>sc_passPoints := sc_passPoints s @ [pt],
                   sc_currentTime := sc_currentTime s + 30000\<rparr>
            else s\<lparr>sc_inPass := True, sc_passStart := Some (sc_currentTime s),
                   sc_passPoints := [pt], sc_currentTime := sc_currentTime s + 30000\<rparr>)"
  using assms by (simp add: scanStep_def Let_def PREDICTION_STEP_SECONDS_def)

lemma scanStep_hidden:
  assumes "propagate e satrec (sc_currentTime s) = Some positionEci"
    and "pt = lookPoint e observerGd positionEci (sc_currentTime s)"
    and "\<not> (isSatelliteVisible e positionEci observerGd (sc_currentTime s) (pt_elevation pt)
            \<and> pt_elevation pt > MIN_ELEVATION_DEG)"
  shows "scanStep e rnd sat launch boosterInfo satrec observerGd s
         = (if sc_inPass s
            then s\<lparr>sc_passes := closePass rnd sat launch boosterInfo s,
                   sc_inPass := False, sc_passStart := None, sc_passPoints := [],
                   sc_currentTime := sc_currentTime s + 30000\<rparr>
            else s\<lparr>sc_currentTime := sc_currentTime s + 30000\<rparr>)"
  using assms by (auto simp: scanStep_def Let_def PREDICTION_STEP_SECONDS_def)

lemma pt_time_lookPoint: "pt_time (lookPoint e observerGd positionEci t) = t"
  by (simp add: lookPoint_def Let_def)

lemma bufferOk_Nil: "bufferOk e satrec observerGd now endTime []"
  by (simp add: bufferOk_def)

lemma bufferOk_snoc:
  assumes "bufferOk e satrec observerGd now endTime points"
    and "list_all (\<lambda>q. pt_time q < pt_time pt) points"
    and "visibleSample e satrec observerGd pt"
    and "now \<le> pt_time pt" and "pt_time pt \<le> endTime" and "(pt_time pt - now) mod 30000 = 0"
  shows "bufferOk e satrec observerGd now endTime (points @ [pt])"
  using assms
  by (auto simp: bufferOk_def sorted_wrt_append list_all_iff)

lemma closePass_emitted:
  assumes "scanInv e satrec observerGd now endTime sat launch boosterInfo s"
    and "sc_inPass s"
  shows "list_all (\<lambda>p. \<exists>points. emittedFrom e satrec observerGd now endTime sat launch
                                   boosterInfo points p)
           (closePass rnd sat launch boosterInfo s)"
proof -
  from assms have start: "sc_passStart s = Some (pt_time (hd (sc_passPoints s)))"
    and buf: "bufferOk e satrec observerGd now endTime (sc_passPoints s)"
    and old: "list_all (\<lambda>p. \<exists>points. emittedFrom e satrec observerGd now endTime sat launch
                                   boosterInfo points p) (sc_passes s)"
    by (simp_all add: scanInv_def)
  show ?thesis
  proof (cases "createPassFromPoints sat launch (pt_time (hd (sc_passPoints s)))
                  (sc_passPoints s) boosterInfo (rnd (length (sc_passes s)))")
    case None
    with start old show ?thesis
      by (simp add: closePass_def)
  next
    case (Some pass)
    then have "2 \<le> length (sc_passPoints s)"
      by (rule createPassFromPoints_fields(1))
    with buf Some
    have "emittedFrom e satrec observerGd now endTime sat launch boosterInfo (sc_passPoints s) pass"
      unfolding emittedFrom_def by blast
    then have "\<exists>points. emittedFrom e satrec observerGd now endTime sat launch
                                   boosterInfo points pass" ..
    with start old Some show ?thesis
      by (simp add: closePass_def)
  qed
qed

lemma scanInv_step:
  assumes inv: "scanInv e satrec observerGd now endTime sat launch boosterInfo s"
    and le: "sc_currentTime s \<le> endTime"
  shows "scanInv e satrec observerGd now endTime sat launch boosterInfo
           (scanStep e rnd sat launch boosterInfo satrec observerGd s)"
proof -
  let ?t = "sc_currentTime s"
  from inv have now: "now \<le> ?t" and grid: "(?t - now) mod 30000 = 0"
    and buf: "bufferOk e satrec observerGd now endTime (sc_passPoints s)"
    and before: "list_all (\<lambda>q. pt_time q < ?t) (sc_passPoints s)"
    and open_pass: "sc_inPass s \<Longrightarrow>
            sc_passPoints s \<noteq> [] \<and> sc_passStart s = Some (pt_time (hd (sc_passPoints s)))"
    and old: "list_all (\<lambda>p. \<exists>points. emittedFrom e satrec observerGd now endTime sat launch
                                   boosterInfo points p) (sc_passes s)"
    by (simp_all add: scanInv_def)
  have "?t + 30000 - now = (?t - now) + 30000" by simp
  then have grid': "(?t + 30000 - now) mod 30000 = 0"
    using grid by (simp only: mod_add_self2)
  have before': "list_all (\<lambda>q. pt_time q < ?t + 30000) (sc_passPoints s)"
    using before by (auto simp: list_all_iff)
  show ?thesis
  proof (cases "propagate e satrec ?t")
    case None
    show ?thesis
      unfolding scanStep_skip [OF None]
      using now grid' buf before' open_pass old by (simp add: scanInv_def)
  next
    case (Some positionEci)
    define pt where "pt = lookPoint e observerGd positionEci ?t"
    have time: "pt_time pt = ?t"
      by (simp add: pt_def pt_time_lookPoint)
    show ?thesis
    proof (cases "isSatelliteVisible e positionEci observerGd ?t (pt_elevation pt)
                  \<and> pt_elevation pt > MIN_ELEVATION_DEG")
      case True
      then have vis: "visibleSample e satrec observerGd pt"
        using Some time by (simp add: visibleSample_def pt_def)
      from True have v1: "isSatelliteVisible e positionEci observerGd ?t (pt_elevation pt)"
        and v2: "pt_elevation pt > MIN_ELEVATION_DEG"
        by simp_all
      have b: "list_all (\<lambda>q. pt_time q < pt_time pt) (sc_passPoints s)"
        using before time by simp
      have n: "now \<le> pt_time pt" and l: "pt_time pt \<le> endTime"
        and g: "(pt_time pt - now) mod 30000 = 0"
        using now le grid time by simp_all
      have snoc: "bufferOk e satrec observerGd now endTime (sc_passPoints s @ [pt])"
        by (rule bufferOk_snoc [OF buf b vis n l g])
      have "bufferOk e satrec observerGd now endTime ([] @ [pt])"
        by (rule bufferOk_snoc [OF bufferOk_Nil _ vis n l g]) simp
      then have single: "bufferOk e satrec observerGd now endTime [pt]"
        by simp
      have step: "scanStep e rnd sat launch boosterInfo satrec observerGd s
         = (if sc_inPass s
            then s\<lparr>sc_passPoints := sc_passPoints s @ [pt],
                   sc_currentTime := ?t + 30000\<rparr>
            else s\<lparr>sc_inPass := True, sc_passStart := Some ?t,
                   sc_passPoints := [pt], sc_currentTime := ?t + 30000\<rparr>)"
        by (rule scanStep_visible [OF Some pt_def v1 v2])
      show ?thesis
      proof (cases "sc_inPass s")
        case True
        with step now grid' snoc before' open_pass old time show ?thesis
          by (simp add: scanInv_def)
      next
        case False
        with step now grid' single old time show ?thesis
          by (simp add: scanInv_def)
      qed
    next
      case False
      have step: "scanStep e rnd sat launch boosterInfo satrec observerGd s
         = (if sc_inPass s
            then s\<lparr>sc_passes := closePass rnd sat launch boosterInfo s,
                   sc_inPass := False, sc_passStart := None, sc_passPoints := [],
                   sc_currentTime := ?t + 30000\<rparr>
            else s\<lparr>sc_currentTime := ?t + 30000\<rparr>)"
        by (rule scanStep_hidden [OF Some pt_def False])
      show ?thesis
      proof (cases "sc_inPass s")
        case True
        with step now grid' closePass_emitted [OF inv True, of rnd] show ?thesis
          by (simp add: scanInv_def bufferOk_Nil)
      next
        case False
        with step now grid' buf before' old show ?thesis
          by (simp add: scanInv_def)
      qed
    qed
  qed
qed

lemma scanInv_loop:
  "scanInv e satrec observerGd now endTime sat launch boosterInfo s \<Longrightarrow>
   scanInv e satrec observerGd now endTime sat launch boosterInfo
     (scanLoop e rnd sat launch boosterInfo satrec observerGd endTime s)"
proof (induction e rnd sat launch boosterInfo satrec observerGd endTime s rule: scanLoop.induct)
  case (1 e rnd sat launch boosterInfo satrec observerGd endTime s)
  show ?case
  proof (cases "sc_currentTime s \<le> endTime")
    case True
    with 1 show ?thesis
      by (simp add: scanLoop.simps [of e rnd sat launch boosterInfo satrec observerGd endTime s]
          scanInv_step)
  next
    case False
    with 1 show ?thesis
      by (simp add: scanLoop.simps [of e rnd sat launch boosterInfo satrec observerGd endTime s])
  qed
qed

lemma scanInv_initial:
  "scanInv e satrec observerGd now endTime sat launch boosterInfo
     \<lparr>sc_currentTime = now, sc_inPass = False, sc_passStart = None,
      sc_passPoints = [], sc_passes = []\<rparr>"
  by (simp add: scanInv_def bufferOk_Nil)

lemma emittedFrom_fields:
  assumes "emittedFrom e satrec observerGd now endTime sat launch boosterInfo points pass"
  shows "pass_start pass = pt_time (hd points) \<and> pass_end pass = pt_time (last points)
         \<and> pass_start pass \<le> pass_peak pass \<and> pass_peak pass \<le> pass_end pass
         \<and> maxElDeg pass = Max (pt_elevation ` set points)
         \<and> azStart pass = pt_azimuth (hd points) \<and> azEnd pass = pt_azimuth (last points)"
proof -
  from assms obtain rand where
    c: "createPassFromPoints sat launch (pt_time (hd points)) points boosterInfo rand = Some pass"
    and sorted: "sorted_wrt (<) (map pt_time points)"
    by (auto simp: emittedFrom_def bufferOk_def)
  note f = createPassFromPoints_fields [OF c]
  from f(4) obtain q where q: "q \<in> set points" "pass_peak pass = pt_time q" by blast
  from sorted_times_hd_last [OF sorted q(1)] q(2) f(2,3)
  have "pass_start pass \<le> pass_peak pass \<and> pass_peak pass \<le> pass_end pass"
    by simp
  with f(2,3,5,6,7) show ?thesis by simp
qed

lemma scanLoop_idle:
  "(\<And>t. sc_currentTime s \<le> t \<Longrightarrow> propagate e satrec t = None) \<Longrightarrow>
   sc_inPass (scanLoop e rnd sat launch boosterInfo satrec observerGd endTime s) = sc_inPass s
   \<and> sc_passStart (scanLoop e rnd sat launch boosterInfo satrec observerGd endTime s) = sc_passStart s
   \<and> sc_passPoints (scanLoop e rnd sat launch boosterInfo satrec observerGd endTime s) = sc_passPoints s
   \<and> sc_passes (scanLoop e rnd sat launch boosterInfo satrec observerGd endTime s) = sc_passes s"
proof (induction e rnd sat launch boosterInfo satrec observerGd endTime s rule: scanLoop.induct)
  case (1 e rnd sat launch boosterInfo satrec observerGd endTime s)
  show ?case
  proof (cases "sc_currentTime s \<le> endTime")
    case True
    have none: "propagate e satrec (sc_currentTime s) = None"
      by (rule 1(2)) simp
    have step: "scanStep e rnd sat launch boosterInfo satrec observerGd s
                = s\<lparr>sc_currentTime := sc_currentTime s + 30000\<rparr>"
      by (rule scanStep_skip [OF none])
    have "propagate e satrec t = None"
      if "sc_currentTime (scanStep e rnd sat launch boosterInfo satrec observerGd s) \<le> t" for t
      using that by (intro 1(2)) (simp add: step)
    from 1(1) [OF True this] show ?thesis
      by (simp add: scanLoop.simps [of e rnd sat launch boosterInfo satrec observerGd endTime s]
          True step)
  next
    case False
    then show ?thesis
      by (simp add: scanLoop.simps [of e rnd sat launch boosterInfo satrec observerGd endTime s])
  qed
qed

lemma example_lookPoint:
  "lookPoint exampleEnv observerGd examplePosition exampleNow = examplePoint1"
  "lookPoint exampleEnv observerGd examplePosition (exampleNow + 30000) = examplePoint2"
  by (simp_all add: lookPoint_def exampleEnv_def radiansToDegrees_def examplePoint1_def
      examplePoint2_def exampleNow_def)

lemma example_propagate:
  "propagate exampleEnv satrec exampleNow = Some examplePosition"
  "propagate exampleEnv satrec (exampleNow + 30000) = Some examplePosition"
  "exampleNow + 60000 \<le> t \<Longrightarrow> propagate exampleEnv satrec t = None"
  by (simp_all add: exampleEnv_def)

lemma example_visible_at:
  assumes "getDayOfYear e t = 81" and "getUTCHours t = 0" and "getUTCMinutes t = 0"
    and "latitude observerGd = 0" and "MIN_ELEVATION_DEG < el"
  shows "isSatelliteVisible e examplePosition observerGd t el"
  using assms
  by (simp add: isSatelliteVisible_def isSatelliteInSunlight_dot example_sun
      example_sun_elevation examplePosition_def CIVIL_TWILIGHT_ANGLE_def)

lemma example_scan:
  "scanLoop exampleEnv rnd sat launch boosterInfo satrec exampleObserver endTime
     \<lparr>sc_currentTime = exampleNow, sc_inPass = False, sc_passStart = None,
      sc_passPoints = [], sc_passes = []\<rparr>
   = s \<Longrightarrow> exampleNow + 30000 \<le> endTime \<Longrightarrow>
   sc_inPass s \<and> sc_passStart s = Some exampleNow
   \<and> sc_passPoints s = [examplePoint1, examplePoint2] \<and> sc_passes s = []"
proof -
  assume loop: "scanLoop exampleEnv rnd sat launch boosterInfo satrec exampleObserver endTime
     \<lparr>sc_currentTime = exampleNow, sc_inPass = False, sc_passStart = None,
      sc_passPoints = [], sc_passes = []\<rparr> = s"
    and horizon: "exampleNow + 30000 \<le> endTime"
  let ?s0 = "\<lparr>sc_currentTime = exampleNow, sc_inPass = False, sc_passStart = None,
              sc_passPoints = [], sc_passes = []\<rparr>"
  let ?s1 = "\<lparr>sc_currentTime = exampleNow + 30000, sc_inPass = True,
              sc_passStart = Some exampleNow,
              sc_passPoints = [examplePoint1], sc_passes = []\<rparr>"
  let ?s2 = "\<lparr>sc_currentTime = exampleNow + 60000, sc_inPass = True,
              sc_passStart = Some exampleNow,
              sc_passPoints = [examplePoint1, examplePoint2], sc_passes = []\<rparr>"
  have lat0: "latitude exampleObserver = 0"
    by (simp add: exampleObserver_def)
  have min1: "MIN_ELEVATION_DEG < pt_elevation examplePoint1"
    and min2: "MIN_ELEVATION_DEG < pt_elevation examplePoint2"
    by (simp_all add: MIN_ELEVATION_DEG_def examplePoint1_def examplePoint2_def)
  have v1: "isSatelliteVisible exampleEnv examplePosition exampleObserver
              (sc_currentTime ?s0) (pt_elevation examplePoint1)"
    using example_visible_at [OF example_day(1) example_clock(1,2) lat0 min1] by simp
  have v2: "isSatelliteVisible exampleEnv examplePosition exampleObserver
              (sc_currentTime ?s1) (pt_elevation examplePoint2)"
    using example_visible_at [OF example_day(2) example_clock(3,4) lat0 min2] by simp
  have p0: "propagate exampleEnv satrec (sc_currentTime ?s0) = Some examplePosition"
    by (simp add: example_propagate)
  have l0: "examplePoint1 = lookPoint exampleEnv exampleObserver examplePosition (sc_currentTime ?s0)"
    by (simp add: example_lookPoint)
  have step1: "scanStep exampleEnv rnd sat launch boosterInfo satrec exampleObserver ?s0 = ?s1"
    using scanStep_visible [OF p0 l0 v1 min1, of rnd sat launch boosterInfo] by simp
  have p1: "propagate exampleEnv satrec (sc_currentTime ?s1) = Some examplePosition"
    by (simp add: example_propagate)
  have l1: "examplePoint2 = lookPoint exampleEnv exampleObserver examplePosition (sc_currentTime ?s1)"
    by (simp add: example_lookPoint)
  have step2: "scanStep exampleEnv rnd sat launch boosterInfo satrec exampleObserver ?s1 = ?s2"
    using scanStep_visible [OF p1 l1 v2 min2, of rnd sat launch boosterInfo] by simp
  have le0: "sc_currentTime ?s0 \<le> endTime" and le1: "sc_currentTime ?s1 \<le> endTime"
    using horizon by simp_all
  have "scanLoop exampleEnv rnd sat launch boosterInfo satrec exampleObserver endTime ?s0
        = scanLoop exampleEnv rnd sat launch boosterInfo satrec exampleObserver endTime ?s1"
    using le0 step1
    by (subst scanLoop.simps) simp
  also have "\<dots> = scanLoop exampleEnv rnd sat launch boosterInfo satrec exampleObserver endTime ?s2"
    using le1 step2
    by (subst scanLoop.simps) simp
  finally have s: "s = scanLoop exampleEnv rnd sat launch boosterInfo satrec exampleObserver
                         endTime ?s2"
    using loop by simp
  have none: "propagate exampleEnv satrec t = None" if "sc_currentTime ?s2 \<le> t" for t
    using that by (intro example_propagate(3)) simp
  show ?thesis
    unfolding s
    using scanLoop_idle [where e = exampleEnv and s = ?s2 and satrec = satrec and rnd = rnd
        and sat = sat and launch = launch and boosterInfo = boosterInfo
        and observerGd = exampleObserver and endTime = endTime, OF none]
    by simp
qed

lemma example_passes:
  "calculateSatellitePasses exampleEnv (\<lambda>k. 1 / 2) exampleNow exampleSat exampleLocation
     exampleLaunch None = Inr [examplePass]"
proof -
  define s where "s = scanLoop exampleEnv (\<lambda>k. 1 / 2) exampleSat exampleLaunch None ()
      exampleObserver (exampleNow + 604800000)
      \<lparr>sc_currentTime = exampleNow, sc_inPass = False, sc_passStart = None,
       sc_passPoints = [], sc_passes = []\<rparr>"
  have s: "sc_inPass s \<and> sc_passStart s = Some exampleNow
           \<and> sc_passPoints s = [examplePoint1, examplePoint2] \<and> sc_passes s = []"
    by (rule example_scan [OF s_def [symmetric]]) simp
  have "createPassFromPoints exampleSat exampleLaunch exampleNow [examplePoint1, examplePoint2]
          None (1 / 2) = Some examplePass"
    by (simp add: createPassFromPoints_def examplePoint1_def examplePoint2_def examplePass_def
        exampleSat_def exampleLaunch_def)
  with s have close: "closePass (\<lambda>k. 1 / 2) exampleSat exampleLaunch None s = [examplePass]"
    by (simp add: closePass_def)
  have obs: "\<lparr>longitude = degreesToRadians (lon exampleLocation),
              latitude = degreesToRadians (lat exampleLocation),
              height = 1 / 10\<rparr> = exampleObserver"
    by (simp add: exampleObserver_def exampleLocation_def degreesToRadians_def)
  have tw: "twoline2satrec exampleEnv (sat_tle1 exampleSat) (sat_tle2 exampleSat) = Some ()"
    by (simp add: exampleEnv_def)
  show ?thesis
    unfolding calculateSatellitePasses_def tw obs
    using s close
    by (simp add: Let_def PREDICTION_DAYS_def s_def)
qed

text \<open>
  Claim C2. Every pass that the pass finder emits was built from a buffer of at least two
  visible samples of the scan, in increasing order of time; its start and end are the
  times of the first and the last sample, with start \<le> peak \<le> end; its peak elevation
  is the maximum elevation over the buffer; its start and end azimuths are those of the
  first and the last sample. A buffer of fewer than two samples gives no pass, at the
  close of a pass as at the horizon, where the same function builds the pass.
\<close>

theorem calculateSatellitePasses_emitted:
  assumes "calculateSatellitePasses e rnd now sat location launch boosterInfo = Inr ps"
    and "pass \<in> set ps"
  shows "(\<exists>satrec points.
            twoline2satrec e (sat_tle1 sat) (sat_tle2 sat) = Some satrec
            \<and> emittedFrom e satrec
                  \<lparr>longitude = degreesToRadians (lon location),
                   latitude = degreesToRadians (lat location),
                   height = 1 / 10\<rparr>
                  now (now + 7 * 24 * 60 * 60 * 1000) sat launch boosterInfo points pass
            \<and> 2 \<le> length points
            \<and> pass_start pass = pt_time (hd points) \<and> pass_end pass = pt_time (last points)
            \<and> pass_start pass \<le> pass_peak pass \<and> pass_peak pass \<le> pass_end pass
            \<and> maxElDeg pass = Max (pt_elevation ` set points)
            \<and> azStart pass = pt_azimuth (hd points) \<and> azEnd pass = pt_azimuth (last points))
         \<and> (\<forall>points start rand. length points < 2 \<longrightarrow>
               createPassFromPoints sat launch start points boosterInfo rand = None)"
proof -
  let ?obs = "\<lparr>longitude = degreesToRadians (lon location),
               latitude = degreesToRadians (lat location),
               height = 1 / 10\<rparr>"
  let ?end = "now + 7 * 24 * 60 * 60 * 1000"
  from assms(1) obtain satrec where
    tw: "twoline2satrec e (sat_tle1 sat) (sat_tle2 sat) = Some satrec"
    by (auto simp: calculateSatellitePasses_def split: option.splits)
  define s where "s = scanLoop e rnd sat launch boosterInfo satrec ?obs ?end
                     \<lparr>sc_currentTime = now, sc_inPass = False, sc_passStart = None,
                      sc_passPoints = [], sc_passes = []\<rparr>"
  have inv: "scanInv e satrec ?obs now ?end sat launch boosterInfo s"
    unfolding s_def by (rule scanInv_loop [OF scanInv_initial])
  from assms(1) tw have ps: "ps = (if sc_inPass s then closePass rnd sat launch boosterInfo s
                                   else sc_passes s)"
    by (auto simp: calculateSatellitePasses_def Let_def s_def PREDICTION_DAYS_def)
  have "list_all (\<lambda>p. \<exists>points. emittedFrom e satrec ?obs now ?end sat launch
                                   boosterInfo points p) ps"
  proof (cases "sc_inPass s")
    case True
    with ps closePass_emitted [OF inv True, of rnd] show ?thesis by simp
  next
    case False
    with ps inv show ?thesis by (simp add: scanInv_def)
  qed
  with assms(2) obtain points where
    em: "emittedFrom e satrec ?obs now ?end sat launch boosterInfo points pass"
    by (auto simp: list_all_iff)
  then have len: "2 \<le> length points"
    by (simp add: emittedFrom_def)
  from tw em len emittedFrom_fields [OF em]
  have "\<exists>satrec points.
            twoline2satrec e (sat_tle1 sat) (sat_tle2 sat) = Some satrec
            \<and> emittedFrom e satrec ?obs now ?end sat launch boosterInfo points pass
            \<and> 2 \<le> length points
            \<and> pass_start pass = pt_time (hd points) \<and> pass_end pass = pt_time (last points)
            \<and> pass_start pass \<le> pass_peak pass \<and> pass_peak pass \<le> pass_end pass
            \<and> maxElDeg pass = Max (pt_elevation ` set points)
            \<and> azStart pass = pt_azimuth (hd points) \<and> azEnd pass = pt_azimuth (last points)"
    by blast
  then show ?thesis
    by (simp add: createPassFromPoints_short)
qed

theorem calculateSatellitePasses_emitted_witness:
  "calculateSatellitePasses exampleEnv (\<lambda>k. 1 / 2) exampleNow exampleSat exampleLocation
     exampleLaunch None = Inr [examplePass]
   \<and> pass_start examplePass \<le> pass_peak examplePass
   \<and> pass_peak examplePass \<le> pass_end examplePass
   \<and> (\<exists>points :: point list. 2 \<le> length points
         \<and> maxElDeg examplePass = Max (pt_elevation ` set points)
         \<and> azStart examplePass = pt_azimuth (hd points)
         \<and> azEnd examplePass = pt_azimuth (last points))
   \<and> createPassFromPoints exampleSat exampleLaunch exampleNow [examplePoint1] None (1 / 2) = None"
proof -
  have "examplePass \<in> set [examplePass]" by simp
  note emitted = calculateSatellitePasses_emitted [OF example_passes this]
  from emitted
  have short: "createPassFromPoints exampleSat exampleLaunch exampleNow [examplePoint1] None
                 (1 / 2) = None"
    by simp
  from emitted have order1: "pass_start examplePass \<le> pass_peak examplePass"
    by (elim conjE exE)
  from emitted have order2: "pass_peak examplePass \<le> pass_end examplePass"
    by (elim conjE exE)
  from emitted have "\<exists>points :: point list. 2 \<le> length points
         \<and> maxElDeg examplePass = Max (pt_elevation ` set points)
         \<and> azStart examplePass = pt_azimuth (hd points)
         \<and> azEnd examplePass = pt_azimuth (last points)"
    by (elim conjE exE) (intro exI conjI; assumption)
  with example_passes short order1 order2 show ?thesis
    by (intro conjI)
qed

section \<open>Properties of the ranking\<close>

lemma insertBy_sorted:
  "sorted_wrt (\<lambda>a b. score b \<le> score a) xs \<Longrightarrow>
   sorted_wrt (\<lambda>a b. score b \<le> score a) (insertBy byScoreDesc x xs)"
proof (induction xs)
  case Nil
  then show ?case by simp
next
  case (Cons y ys)
  have set_ins: "set (insertBy cmp x zs) = insert x (set zs)" for zs and cmp :: "Pass \<Rightarrow> Pass \<Rightarrow> real"
    by (induction zs) auto
  from Cons show ?case
    by (auto simp: byScoreDesc_def set_ins)
qed

lemma sortBy_sorted: "sorted_wrt (\<lambda>a b. score b \<le> score a) (sortBy byScoreDesc xs)"
  unfolding sortBy_def by (induction xs) (simp_all add: insertBy_sorted)

lemma mset_insertBy: "mset (insertBy cmp x xs) = add_mset x (mset xs)"
  by (induction xs) simp_all

lemma mset_sortBy: "mset (sortBy cmp xs) = mset xs"
  unfolding sortBy_def by (induction xs) (simp_all add: mset_insertBy)

lemma set_sortBy: "set (sortBy cmp xs) = set xs"
  using mset_sortBy [of cmp xs] by (metis set_mset_mset)

lemma length_sortBy: "length (sortBy cmp xs) = length xs"
  using mset_sortBy [of cmp xs] by (metis size_mset)

lemma concat_map_batches:
  "0 < n \<Longrightarrow> concat (map (\<lambda>batch. concat (map f batch)) (batches n xs)) = concat (map f xs)"
proof (induction n xs rule: batches.induct)
  case (1 n xs)
  show ?case
  proof (cases "xs = []")
    case True
    then show ?thesis by (simp add: batches.simps [of n "[]"])
  next
    case False
    with 1 have "concat (map (\<lambda>batch. concat (map f batch)) (batches n xs))
                 = concat (map f (take n xs)) @ concat (map f (drop n xs))"
      by (simp add: batches.simps [of n xs])
    also have "\<dots> = concat (map f (take n xs @ drop n xs))"
      by (simp only: map_append concat_append)
    finally show ?thesis by simp
  qed
qed

lemma calculateTrainScore_score:
  "calculateTrainScore e (pass\<lparr>score := x\<rparr>) launch = calculateTrainScore e pass launch"
  by (simp add: calculateTrainScore_def)

lemma calculatePasses_scored:
  assumes "p \<in> set (calculatePasses e rnd now satellites location launch)"
  shows "score p = calculateTrainScore e p launch"
proof -
  from assms obtain q where "p = q\<lparr>score := calculateTrainScore e q launch\<rparr>"
    by (auto simp: calculatePasses_def Let_def set_sortBy split: if_splits)
  then show ?thesis
    by (simp add: calculateTrainScore_score)
qed

lemma processLaunch_scored:
  assumes "p \<in> set (processLaunch e rnd now satelliteMap location launch)"
  shows "score p = calculateTrainScore e p launch"
  using assms
  by (auto simp: processLaunch_def Let_def calculatePasses_scored split: if_splits)

lemma mergedPasses_scored:
  assumes "p \<in> set (mergedPasses e rnd now satelliteMap location launches)"
  shows "\<exists>launch\<in>set launches. score p = calculateTrainScore e p launch"
proof -
  from assms obtain i launch where il: "(i, launch) \<in> set (enumerate 0 launches)"
    and p: "p \<in> set (processLaunch e (rnd i) now satelliteMap location launch)"
    by (auto simp: mergedPasses_def)
  from il have "launch \<in> set launches"
    by (auto simp: enumerate_eq_zip dest: set_zip_rightD)
  with processLaunch_scored [OF p] show ?thesis by blast
qed

lemma calculateFreshPredictions_merged:
  assumes "fst (getLaunchAndSatelliteData e now st) = Inr (launches, satelliteMap)"
  shows "fst (calculateFreshPredictions e rnd now st location weights)
         = Inr (take 20 (sortBy byScoreDesc
                  (mergedPasses e rnd now satelliteMap location launches)))"
proof -
  obtain st1 where g: "getLaunchAndSatelliteData e now st = (Inr (launches, satelliteMap), st1)"
    using assms by (cases "getLaunchAndSatelliteData e now st") simp
  show ?thesis
  proof (cases "length launches = 0")
    case True
    with g show ?thesis
      by (simp add: calculateFreshPredictions_def mergedPasses_def sortBy_def)
  next
    case False
    have c: "concat (map (\<lambda>batch. concat (map f batch)) (batches 3 xs)) = concat (map f xs)"
      for f :: "nat \<times> LaunchLite \<Rightarrow> Pass list" and xs
      by (rule concat_map_batches) simp
    from False g show ?thesis
      by (simp add: calculateFreshPredictions_def Let_def mergedPasses_def c)
  qed
qed

lemma map_of_mapSet: "map_of (mapSet k v m) k' = (if k' = k then Some v else map_of m k')"
  by (induction m) auto

lemma mapGet_fetchSatelliteMap_aux:
  assumes "\<And>launch. getStarlinkSatellites e launch = Inr sats"
  shows "map_of (foldl (\<lambda>m launch.
               case getStarlinkSatellites e (launch_id launch) of
                 Inr satellites \<Rightarrow> mapSet (launch_id launch) satellites m
               | Inl _ \<Rightarrow> mapSet (launch_id launch) [] m) m0 launches) k
         = (if k \<in> launch_id ` set launches then Some sats else map_of m0 k)"
  by (induction launches arbitrary: m0) (auto simp: assms map_of_mapSet)

lemma mapGet_fetchSatelliteMap:
  assumes "\<And>launch. getStarlinkSatellites e launch = Inr sats" and "l \<in> set launches"
  shows "mapGet (fetchSatelliteMap e launches) (launch_id l) = Some sats"
  using assms(2)
  by (simp add: mapGet_def fetchSatelliteMap_def mapGet_fetchSatelliteMap_aux [OF assms(1)])

lemma scanStep_providers:
  "scanStep (e\<lparr>getRecentStarlinkLaunches := f, getStarlinkSatellites := g\<rparr>) rnd sat launch
     boosterInfo satrec observerGd s
   = scanStep e rnd sat launch boosterInfo satrec observerGd s"
proof -
  let ?e = "e\<lparr>getRecentStarlinkLaunches := f, getStarlinkSatellites := g\<rparr>"
  have look: "lookPoint ?e observerGd positionEci t = lookPoint e observerGd positionEci t"
    for positionEci t
    by (simp add: lookPoint_def)
  have visible: "isSatelliteVisible ?e positionEci observerGd t el
                 = isSatelliteVisible e positionEci observerGd t el" for positionEci t el
    by (simp add: isSatelliteVisible_def isSatelliteInSunlight_def calculateSunPositionEci_def
        calculateSunElevation_def getDayOfYear_def)
  show ?thesis
    by (simp add: scanStep_def Let_def look visible split: option.splits)
qed

lemma scanLoop_providers:
  "scanLoop (e\<lparr>getRecentStarlinkLaunches := f, getStarlinkSatellites := g\<rparr>) rnd sat launch
     boosterInfo satrec observerGd endTime s
   = scanLoop e rnd sat launch boosterInfo satrec observerGd endTime s"
proof (induction e rnd sat launch boosterInfo satrec observerGd endTime s rule: scanLoop.induct)
  case (1 e rnd sat launch boosterInfo satrec observerGd endTime s)
  let ?e = "e\<lparr>getRecentStarlinkLaunches := f, getStarlinkSatellites := g\<rparr>"
  show ?case
  proof (cases "sc_currentTime s \<le> endTime")
    case True
    have "scanLoop ?e rnd sat launch boosterInfo satrec observerGd endTime s
          = scanLoop ?e rnd sat launch boosterInfo satrec observerGd endTime
              (scanStep e rnd sat launch boosterInfo satrec observerGd s)"
      using True
      by (subst scanLoop.simps) (simp add: scanStep_providers)
    also have "\<dots> = scanLoop e rnd sat launch boosterInfo satrec observerGd endTime
              (scanStep e rnd sat launch boosterInfo satrec observerGd s)"
      by (rule 1 [OF True])
    also have "\<dots> = scanLoop e rnd sat launch boosterInfo satrec observerGd endTime s"
      using True
      by (subst (2) scanLoop.simps) simp
    finally show ?thesis .
  next
    case False
    then show ?thesis
      by (simp add: scanLoop.simps [of ?e rnd sat launch boosterInfo satrec observerGd endTime s]
          scanLoop.simps [of e rnd sat launch boosterInfo satrec observerGd endTime s])
  qed
qed

lemma calculateSatellitePasses_providers:
  "calculateSatellitePasses (e\<lparr>getRecentStarlinkLaunches := f, getStarlinkSatellites := g\<rparr>)
     rnd now sat location launch boosterInfo
   = calculateSatellitePasses e rnd now sat location launch boosterInfo"
  by (simp add: calculateSatellitePasses_def scanLoop_providers Let_def split: option.splits)

lemma example_passes_of:
  "calculateSatellitePasses exampleEnv (\<lambda>k. 1 / 2) exampleNow sat exampleLocation launch None
   = Inr [\<lparr>satId = sat_id sat,
            launchId = sat_launch sat,
            pass_start = exampleNow,
            pass_peak = exampleNow + 30000,
            pass_end = exampleNow + 30000,
            maxElDeg = 60,
            phaseAngleDeg = 60,
            score = 0,
            azStart = 0,
            azEnd = 180,
            launchName = Some (launch_name launch),
            pass_boosterInfo = None\<rparr>]"
proof -
  define s where "s = scanLoop exampleEnv (\<lambda>k. 1 / 2) sat launch None ()
      exampleObserver (exampleNow + 604800000)
      \<lparr>sc_currentTime = exampleNow, sc_inPass = False, sc_passStart = None,
       sc_passPoints = [], sc_passes = []\<rparr>"
  have s: "sc_inPass s \<and> sc_passStart s = Some exampleNow
           \<and> sc_passPoints s = [examplePoint1, examplePoint2] \<and> sc_passes s = []"
    by (rule example_scan [OF s_def [symmetric]]) simp
  have "createPassFromPoints sat launch exampleNow [examplePoint1, examplePoint2] None (1 / 2)
        = Some \<lparr>satId = sat_id sat, launchId = sat_launch sat, pass_start = exampleNow,
            pass_peak = exampleNow + 30000, pass_end = exampleNow + 30000,
            maxElDeg = 60, phaseAngleDeg = 60, score = 0, azStart = 0, azEnd = 180,
            launchName = Some (launch_name launch), pass_boosterInfo = None\<rparr>"
    by (simp add: createPassFromPoints_def examplePoint1_def examplePoint2_def)
  with s have close: "closePass (\<lambda>k. 1 / 2) sat launch None s
        = [\<lparr>satId = sat_id sat, launchId = sat_launch sat, pass_start = exampleNow,
            pass_peak = exampleNow + 30000, pass_end = exampleNow + 30000,
            maxElDeg = 60, phaseAngleDeg = 60, score = 0, azStart = 0, azEnd = 180,
            launchName = Some (launch_name launch), pass_boosterInfo = None\<rparr>]"
    by (simp add: closePass_def)
  have obs: "\<lparr>longitude = degreesToRadians (lon exampleLocation),
              latitude = degreesToRadians (lat exampleLocation),
              height = 1 / 10\<rparr> = exampleObserver"
    by (simp add: exampleObserver_def exampleLocation_def degreesToRadians_def)
  have tw: "twoline2satrec exampleEnv (sat_tle1 sat) (sat_tle2 sat) = Some ()"
    by (simp add: exampleEnv_def)
  show ?thesis
    unfolding calculateSatellitePasses_def tw obs
    using s close
    by (simp add: Let_def PREDICTION_DAYS_def s_def)
qed

lemma busy_valid:
  "isValidTle (sat_tle1 (busySat j)) (sat_tle2 (busySat j))"
  "isTleFresh busyEnv exampleNow (sat_epoch (busySat j))"
  by (simp_all add: isValidTle_def startsWith_def isTleFresh_def busySat_def exampleSat_def
      busyEnv_def exampleEnv_def exampleEpoch_def)

lemma busy_passes:
  "calculateSatellitePasses busyEnv (\<lambda>k. 1 / 2) exampleNow (busySat j) exampleLocation
     (busyLaunch i) None = Inr [(busyPass j i)\<lparr>score := 0\<rparr>]"
  unfolding busyEnv_def calculateSatellitePasses_providers example_passes_of
  by (simp add: busySat_def busyLaunch_def busyPass_def exampleSat_def)

lemma busy_score:
  "calculateTrainScore busyEnv ((busyPass j i)\<lparr>score := 0\<rparr>) (busyLaunch i)
   = 9 / (20 * (1 + real i)) + 203 / 600"
proof -
  have hour: "getHours busyEnv (exampleNow + 30000) = 0"
    by (simp add: busyEnv_def exampleEnv_def exampleNow_def)
  have days: "real_of_int (int i * 86400000) / (1000 * 60 * 60 * 24) = real i"
    by simp
  have "1 + real i \<noteq> 0"
    by (metis add_nonneg_eq_0_iff of_nat_0_le_iff zero_le_one zero_neq_one)
  then show ?thesis
    by (simp add: calculateTrainScore_def calculateTwilightBonus_def hour busyPass_def
        busyLaunch_def DEFAULT_WEIGHTS_def days field_simps)
qed

lemma busy_scored:
  "x = 9 / (20 * (1 + real i)) + 203 / 600 \<Longrightarrow> (busyPass j i)\<lparr>score := x\<rparr> = busyPass j i"
  by (simp add: busyPass_def)

lemma busy_calculatePasses:
  "calculatePasses busyEnv (\<lambda>j k. 1 / 2) exampleNow busySats exampleLocation (busyLaunch i)
   = [busyPass 0 i, busyPass 3 i]"
proof -
  have booster: "lookupBooster busyEnv (busyLaunch i) = None"
    by (simp add: lookupBooster_def busyLaunch_def)
  have enum4: "enumerate 0 [busySat 0, busySat 1, busySat 2, busySat 3]
               = [(0, busySat 0), (1, busySat 1), (2, busySat 2), (3, busySat 3)]"
    by (simp add: enumerate_eq_zip upt_rec)
  have enum2: "enumerate 0 [busySat 0, busySat 3] = [(0, busySat 0), (1, busySat 3)]"
    by (simp add: enumerate_eq_zip upt_rec)
  have same: "byScoreDesc (busyPass 0 i) (busyPass 3 i) \<le> 0"
    by (simp add: byScoreDesc_def busyPass_def)
  show ?thesis
    by (simp add: calculatePasses_def busySats_def busy_valid Let_def enum4 enum2 booster
        busy_passes busy_score busy_scored sortBy_def same)
qed

lemma busy_snapshot:
  "fst (getLaunchAndSatelliteData busyEnv exampleNow newEngine)
   = Inr (busyLaunches, fetchSatelliteMap busyEnv busyLaunches)"
  by (simp add: getLaunchAndSatelliteData_def liveLaunchCache_def newEngine_def busyEnv_def
      Let_def)

lemma busy_processLaunch:
  assumes "busyLaunch i \<in> set busyLaunches"
  shows "processLaunch busyEnv (\<lambda>j k. 1 / 2) exampleNow (fetchSatelliteMap busyEnv busyLaunches)
           exampleLocation (busyLaunch i) = [busyPass 0 i, busyPass 3 i]"
proof -
  have "getStarlinkSatellites busyEnv launch = Inr busySats" for launch
    by (simp add: busyEnv_def)
  from mapGet_fetchSatelliteMap [OF this assms]
  have get: "mapGet (fetchSatelliteMap busyEnv busyLaunches) (launch_id (busyLaunch i))
             = Some busySats" .
  have valid: "filterValidSatellites busyEnv exampleNow busySats = busySats"
    by (simp add: filterValidSatellites_def busySats_def busy_valid)
  have "length busySats \<noteq> 0"
    by (simp add: busySats_def)
  then show ?thesis
    by (simp add: processLaunch_def get valid busy_calculatePasses)
qed

lemma busy_merged:
  "mergedPasses busyEnv (\<lambda>i j k. 1 / 2) exampleNow (fetchSatelliteMap busyEnv busyLaunches)
     exampleLocation busyLaunches = busyMerged"
proof -
  define sm where "sm = fetchSatelliteMap busyEnv busyLaunches"
  have pl: "processLaunch busyEnv (\<lambda>j k. 1 / 2) exampleNow sm exampleLocation (busyLaunch i)
            = [busyPass 0 i, busyPass 3 i]" if "busyLaunch i \<in> set busyLaunches" for i
    unfolding sm_def using that by (rule busy_processLaunch)
  have pls: "processLaunch busyEnv (\<lambda>j k. 1 / 2) exampleNow sm exampleLocation (busyLaunch i)
            = [busyPass 0 i, busyPass 3 i]"
    if "i \<in> {1, 2, 3, 4, 5, 6, 7, 8, 9, 10, 11}" for i
    using that by (intro pl) (auto simp: busyLaunches_def)
  have "mergedPasses busyEnv (\<lambda>i j k. 1 / 2) exampleNow sm exampleLocation busyLaunches
        = busyMerged"
    by (simp add: mergedPasses_def busyLaunches_def pls busyMerged_def)
  then show ?thesis
    by (simp only: sm_def)
qed

lemma busy_score_field: "score (busyPass j i) = 9 / (20 * (1 + real i)) + 203 / 600"
  by (simp add: busyPass_def)

lemma busy_sorted: "take 20 (sortBy byScoreDesc busyMerged) = busyTop"
  by (simp add: busyMerged_def busyTop_def sortBy_def byScoreDesc_def busy_score_field)

lemma busy_fresh:
  "fst (calculateFreshPredictions busyEnv (\<lambda>i j k. 1 / 2) exampleNow newEngine exampleLocation
          weights) = Inr busyTop"
  using calculateFreshPredictions_merged [OF busy_snapshot, of "\<lambda>i j k. 1 / 2" exampleLocation
      weights]
  by (simp add: busy_merged busy_sorted)

lemma example_valid:
  "isValidTle (sat_tle1 exampleSat) (sat_tle2 exampleSat)"
  "isTleFresh exampleEnv exampleNow (sat_epoch exampleSat)"
  by (simp_all add: isValidTle_def startsWith_def isTleFresh_def exampleSat_def exampleEnv_def
      exampleEpoch_def)

lemma example_calculatePasses:
  "calculatePasses exampleEnv (\<lambda>j k. 1 / 2) exampleNow [exampleSat] exampleLocation exampleLaunch
   = [exampleScored]"
proof -
  have booster: "lookupBooster exampleEnv exampleLaunch = None"
    by (simp add: lookupBooster_def exampleLaunch_def)
  have enum: "enumerate 0 [exampleSat] = [(0, exampleSat)]"
    by (simp add: enumerate_eq_zip)
  show ?thesis
    by (simp add: calculatePasses_def example_valid Let_def enum booster example_passes
        sortBy_def exampleScored_def)
qed

lemma example_processLaunch:
  "processLaunch exampleEnv (\<lambda>j k. 1 / 2) exampleNow [(''launch-1'', [exampleSat])]
     exampleLocation exampleLaunch = [exampleScored]"
proof -
  have id: "launch_id exampleLaunch = ''launch-1''"
    by (simp add: exampleLaunch_def)
  show ?thesis
    by (simp add: processLaunch_def mapGet_def id filterValidSatellites_def example_valid
        example_calculatePasses)
qed

lemma example_snapshot:
  "fst (getLaunchAndSatelliteData exampleEnv exampleNow newEngine)
   = Inr ([exampleLaunch], [(''launch-1'', [exampleSat])])"
proof -
  have id: "launch_id exampleLaunch = ''launch-1''"
    by (simp add: exampleLaunch_def)
  have "getRecentStarlinkLaunches exampleEnv exampleNow = Inr [exampleLaunch]"
    and "getStarlinkSatellites exampleEnv ''launch-1'' = Inr [exampleSat]"
    by (simp_all add: exampleEnv_def)
  then show ?thesis
    by (simp add: getLaunchAndSatelliteData_def liveLaunchCache_def newEngine_def
        fetchSatelliteMap_def id Let_def)
qed

lemma example_fresh:
  "fst (calculateFreshPredictions exampleEnv (\<lambda>i j k. 1 / 2) exampleNow newEngine
          exampleLocation weights) = Inr [exampleScored]"
proof -
  obtain st1 where g: "getLaunchAndSatelliteData exampleEnv exampleNow newEngine
      = (Inr ([exampleLaunch], [(''launch-1'', [exampleSat])]), st1)"
    using example_snapshot by (cases "getLaunchAndSatelliteData exampleEnv exampleNow newEngine") simp
  have enum: "enumerate 0 [exampleLaunch] = [(0, exampleLaunch)]"
    by (simp add: enumerate_eq_zip)
  have b: "batches 3 [(0::nat, exampleLaunch)] = [[(0, exampleLaunch)]]"
    by (subst batches.simps, simp, subst batches.simps, simp)
  show ?thesis
    by (simp add: calculateFreshPredictions_def g Let_def enum b example_processLaunch sortBy_def)
qed

text \<open>
  Claim C6. The pass list of a fresh computation is the merge of the passes of all
  launches, each with the score of its launch, sorted in descending order of score and
  cut to the 20 highest: with the passes that were cut it is a rearrangement of the merge
  in descending order, and it has 20 passes or, if the merge has fewer, all of them. It
  is what \<open>getPredictions\<close> returns when no live cache entry serves the call.
\<close>

theorem calculateFreshPredictions_sorted_top20:
  assumes "fst (calculateFreshPredictions e rnd now st location weights) = Inr ps"
  shows "(\<exists>launches satelliteMap rest.
            fst (getLaunchAndSatelliteData e now st) = Inr (launches, satelliteMap)
            \<and> mset (ps @ rest) = mset (mergedPasses e rnd now satelliteMap location launches)
            \<and> sorted_wrt (\<lambda>a b. score a \<ge> score b) (ps @ rest)
            \<and> length ps = min 20 (length (mergedPasses e rnd now satelliteMap location launches))
            \<and> (\<forall>p\<in>set (mergedPasses e rnd now satelliteMap location launches).
                  \<exists>launch\<in>set launches. score p = calculateTrainScore e p launch))
         \<and> sorted_wrt (\<lambda>a b. score a \<ge> score b) ps \<and> length ps \<le> 20
         \<and> ((case predictionCache st (generateLocationCacheKey location) of
                None \<Rightarrow> True | Some c \<Rightarrow> pc_expiresAt c \<le> now)
              \<longrightarrow> fst (getPredictions e rnd now st location weights) = Inr ps)"
proof -
  obtain r st1 where g: "getLaunchAndSatelliteData e now st = (r, st1)"
    by (cases "getLaunchAndSatelliteData e now st")
  from assms g obtain snapshot where r: "r = Inr snapshot"
    by (cases r) (auto simp: calculateFreshPredictions_def)
  obtain launches satelliteMap where sn: "snapshot = (launches, satelliteMap)"
    by (cases snapshot)
  let ?merged = "mergedPasses e rnd now satelliteMap location launches"
  let ?sorted = "sortBy byScoreDesc ?merged"
  from g r sn have snap: "fst (getLaunchAndSatelliteData e now st) = Inr (launches, satelliteMap)"
    by simp
  from calculateFreshPredictions_merged [OF snap, of rnd location weights] assms
  have ps: "ps = take 20 ?sorted"
    by simp
  define rest where "rest = drop 20 ?sorted"
  have whole: "ps @ rest = ?sorted"
    by (simp add: ps rest_def)
  have perm: "mset (ps @ rest) = mset ?merged"
    by (simp only: whole mset_sortBy)
  have sorted: "sorted_wrt (\<lambda>a b. score a \<ge> score b) (ps @ rest)"
    by (simp only: whole sortBy_sorted)
  have len: "length ps = min 20 (length ?merged)"
    by (simp add: ps length_sortBy min.commute)
  have scored: "\<forall>p\<in>set ?merged. \<exists>launch\<in>set launches. score p = calculateTrainScore e p launch"
    using mergedPasses_scored by blast
  have first: "\<exists>launches satelliteMap rest.
            fst (getLaunchAndSatelliteData e now st) = Inr (launches, satelliteMap)
            \<and> mset (ps @ rest) = mset (mergedPasses e rnd now satelliteMap location launches)
            \<and> sorted_wrt (\<lambda>a b. score a \<ge> score b) (ps @ rest)
            \<and> length ps = min 20 (length (mergedPasses e rnd now satelliteMap location launches))
            \<and> (\<forall>p\<in>set (mergedPasses e rnd now satelliteMap location launches).
                  \<exists>launch\<in>set launches. score p = calculateTrainScore e p launch)"
    using snap perm sorted len scored by blast
  have sorted_ps: "sorted_wrt (\<lambda>a b. score a \<ge> score b) ps"
    unfolding ps by (rule sorted_wrt_take) (rule sortBy_sorted)
  have short: "length ps \<le> 20"
    unfolding ps by simp
  have "fst (getPredictions e rnd now st location weights) = Inr ps"
    if "case predictionCache st (generateLocationCacheKey location) of
          None \<Rightarrow> True | Some c \<Rightarrow> pc_expiresAt c \<le> now"
  proof -
    obtain r' st' where f: "calculateFreshPredictions e rnd now st location weights = (r', st')"
      by (cases "calculateFreshPredictions e rnd now st location weights")
    with assms have "r' = Inr ps" by simp
    with f have "fst (computeAndStore e rnd now st location weights k cached) = Inr ps"
      for k cached
      by (simp add: computeAndStore_def Let_def)
    with that show ?thesis
      by (simp add: getPredictions_def Let_def split: option.splits)
  qed
  with first sorted_ps short show ?thesis
    by blast
qed

theorem calculateFreshPredictions_sorted_top20_witness:
  "fst (calculateFreshPredictions busyEnv (\<lambda>i j k. 1 / 2) exampleNow newEngine exampleLocation
          None) = Inr busyTop
   \<and> mergedPasses busyEnv (\<lambda>i j k. 1 / 2) exampleNow (fetchSatelliteMap busyEnv busyLaunches)
         exampleLocation busyLaunches = busyMerged
   \<and> length busyMerged = 22 \<and> length busyTop = 20
   \<and> (\<exists>rest. mset (busyTop @ rest) = mset busyMerged
         \<and> sorted_wrt (\<lambda>a b. score a \<ge> score b) (busyTop @ rest))
   \<and> sorted_wrt (\<lambda>a b. score a \<ge> score b) busyTop
   \<and> \<not> sorted_wrt (\<lambda>a b. score a \<ge> score b) busyMerged
   \<and> fst (getPredictions busyEnv (\<lambda>i j k. 1 / 2) exampleNow newEngine exampleLocation None)
       = Inr busyTop"
proof -
  note top = calculateFreshPredictions_sorted_top20 [OF busy_fresh, of None]
  from top obtain launches satelliteMap rest where
    snap: "fst (getLaunchAndSatelliteData busyEnv exampleNow newEngine)
           = Inr (launches, satelliteMap)"
    and perm: "mset (busyTop @ rest)
               = mset (mergedPasses busyEnv (\<lambda>i j k. 1 / 2) exampleNow satelliteMap
                         exampleLocation launches)"
    and sorted: "sorted_wrt (\<lambda>a b. score a \<ge> score b) (busyTop @ rest)"
    by (elim conjE exE) (rule that; assumption)
  from snap have "launches = busyLaunches" "satelliteMap = fetchSatelliteMap busyEnv busyLaunches"
    by (simp_all add: busy_snapshot)
  with perm have "mset (busyTop @ rest) = mset busyMerged"
    by (simp add: busy_merged)
  with sorted have ex: "\<exists>rest. mset (busyTop @ rest) = mset busyMerged
         \<and> sorted_wrt (\<lambda>a b. score a \<ge> score b) (busyTop @ rest)"
    by blast
  from top have sorted_top: "sorted_wrt (\<lambda>a b. score a \<ge> score b) busyTop"
    by (elim conjE)
  have "predictionCache newEngine (generateLocationCacheKey exampleLocation) = None"
    by (simp add: newEngine_def)
  with top have served: "fst (getPredictions busyEnv (\<lambda>i j k. 1 / 2) exampleNow newEngine
                                exampleLocation None) = Inr busyTop"
    by simp
  have lengths: "length busyMerged = 22" "length busyTop = 20"
    by (simp_all add: busyMerged_def busyTop_def)
  have unsorted: "\<not> sorted_wrt (\<lambda>a b. score a \<ge> score b) busyMerged"
    by (simp add: busyMerged_def busy_score_field)
  from busy_fresh busy_merged lengths ex sorted_top unsorted served show ?thesis
    by (intro conjI)
qed

section \<open>Properties of the prediction cache\<close>

text \<open>
  Claim C3. If the fresh computation inside \<open>getPredictions\<close> fails and an expired cache
  entry exists for the observer's key, \<open>getPredictions\<close> returns the pass list of that
  entry; the failure reaches the caller only when the key has no entry of any age.
\<close>

theorem getPredictions_degrades:
  assumes "fst (calculateFreshPredictions e rnd now st location weights) = Inl err"
  shows "(predictionCache st (generateLocationCacheKey location) = Some c
            \<and> pc_expiresAt c \<le> now
          \<longrightarrow> fst (getPredictions e rnd now st location weights) = Inr (pc_passes c))
         \<and> (predictionCache st (generateLocationCacheKey location) = None
          \<longrightarrow> fst (getPredictions e rnd now st location weights) = Inl err)
         \<and> (fst (getPredictions e rnd now st location weights) = Inl err'
          \<longrightarrow> predictionCache st (generateLocationCacheKey location) = None \<and> err' = err)"
  using assms
  by (auto simp: getPredictions_def computeAndStore_def Let_def
      split: option.splits prod.splits sum.splits if_splits)

theorem getPredictions_degrades_witness:
  "fst (getPredictions failingEnv (\<lambda>i j k. 0) exampleNow staleEngine exampleLocation None)
     = Inr [examplePass]
   \<and> fst (getPredictions failingEnv (\<lambda>i j k. 0) exampleNow newEngine exampleLocation None)
     = Inl (Error ''unavailable'')"
proof -
  have fresh: "fst (calculateFreshPredictions failingEnv (\<lambda>i j k. 0) exampleNow st
                 exampleLocation None) = Inl (Error ''unavailable'')"
    if "launchCache st = None" for st
    using that
    by (simp add: calculateFreshPredictions_def getLaunchAndSatelliteData_def
        liveLaunchCache_def failingEnv_def)
  have stale: "predictionCache staleEngine (generateLocationCacheKey exampleLocation)
        = Some \<lparr>pc_location = exampleLocation, pc_passes = [examplePass],
                 pc_timestamp = exampleNow - 960000, pc_expiresAt = exampleNow - 60000\<rparr>"
    by (simp add: staleEngine_def)
  have none: "predictionCache newEngine (generateLocationCacheKey exampleLocation) = None"
    by (simp add: newEngine_def)
  from getPredictions_degrades [OF fresh, of staleEngine _ "Error ''unavailable''"]
    getPredictions_degrades [OF fresh, of newEngine _ "Error ''unavailable''"]
    stale none
  show ?thesis
    by (simp add: staleEngine_def newEngine_def)
qed

text \<open>
  Claim C5. What \<open>getPredictions\<close> returns does not depend on the weights of the caller:
  the scorer reads \<open>DEFAULT_WEIGHTS\<close>.
\<close>

theorem getPredictions_ignores_weights:
  "getPredictions e rnd now st location weights = getPredictions e rnd now st location weights'"
proof -
  have fresh: "calculateFreshPredictions e rnd now st location weights
               = calculateFreshPredictions e rnd now st location weights'"
    by (simp add: calculateFreshPredictions_def)
  have "computeAndStore e rnd now st location weights k cached
        = computeAndStore e rnd now st location weights' k cached" for k cached
    by (simp add: computeAndStore_def fresh)
  then show ?thesis
    by (simp add: getPredictions_def Let_def split: option.splits)
qed

theorem getPredictions_ignores_weights_witness:
  "getPredictions quietEnv (\<lambda>i j k. 0) exampleNow newEngine exampleLocation None
   = getPredictions quietEnv (\<lambda>i j k. 0) exampleNow newEngine exampleLocation
       (Some \<lparr>w1 = 1, w2 = 0, w3 = 0, w4 = 0\<rparr>)"
  by (rule getPredictions_ignores_weights)

lemma predictionCache_getLaunchAndSatelliteData:
  "predictionCache (snd (getLaunchAndSatelliteData e now st)) = predictionCache st"
  by (simp add: getLaunchAndSatelliteData_def Let_def split: option.splits sum.splits)

lemma predictionCache_calculateFreshPredictions:
  "predictionCache (snd (calculateFreshPredictions e rnd now st location weights))
   = predictionCache st"
proof -
  obtain r st1 where g: "getLaunchAndSatelliteData e now st = (r, st1)"
    by (cases "getLaunchAndSatelliteData e now st")
  then have "predictionCache st1 = predictionCache st"
    using predictionCache_getLaunchAndSatelliteData [of e now st] by simp
  with g show ?thesis
    by (simp add: calculateFreshPredictions_def Let_def split: sum.splits prod.splits)
qed

lemma computeAndStore_entry:
  assumes "computeAndStore e rnd now st location weights key cached = (Inr passes1, st1)"
    and "predictionCache st1 key = Some c"
    and "cached = predictionCache st key"
  shows "pc_passes c = passes1"
proof (cases "calculateFreshPredictions e rnd now st location weights")
  case (Pair r st')
  have pc: "predictionCache st' = predictionCache st"
    using predictionCache_calculateFreshPredictions [of e rnd now st location weights] Pair
    by simp
  show ?thesis
  proof (cases r)
    case (Inl err)
    with Pair assms pc show ?thesis
      by (auto simp: computeAndStore_def split: option.splits)
  next
    case (Inr ps)
    with Pair assms show ?thesis
      by (auto simp: computeAndStore_def cleanupCache_def Let_def split: if_splits)
  qed
qed

lemma getPredictions_miss:
  assumes "case predictionCache st (generateLocationCacheKey location) of
             None \<Rightarrow> True | Some c \<Rightarrow> pc_expiresAt c \<le> now"
    and "fst (calculateFreshPredictions e rnd now st location weights) = Inr ps"
  shows "fst (getPredictions e rnd now st location weights) = Inr ps
         \<and> predictionCache (snd (getPredictions e rnd now st location weights))
             (generateLocationCacheKey location)
           = Some \<lparr>pc_location = location, pc_passes = ps, pc_timestamp = now,
                    pc_expiresAt = now + CACHE_DURATION_MS\<rparr>"
proof -
  obtain r st1 where f: "calculateFreshPredictions e rnd now st location weights = (r, st1)"
    by (cases "calculateFreshPredictions e rnd now st location weights")
  with assms(2) have r: "r = Inr ps" by simp
  have "fst (computeAndStore e rnd now st location weights k cached) = Inr ps
        \<and> predictionCache (snd (computeAndStore e rnd now st location weights k cached)) k
          = Some \<lparr>pc_location = location, pc_passes = ps, pc_timestamp = now,
                   pc_expiresAt = now + CACHE_DURATION_MS\<rparr>" for k cached
    by (simp add: computeAndStore_def f r Let_def cleanupCache_def CACHE_DURATION_MS_def)
  with assms(1) show ?thesis
    by (simp add: getPredictions_def Let_def split: option.splits)
qed

text \<open>
  Claim C7. For two calls of \<open>getPredictions\<close> whose locations have the same cache key,
  the second made before the cache entry of the first expires, the second call returns
  exactly the pass list of the first, without recomputation, whatever the upstream data
  are by then.
\<close>

theorem getPredictions_idempotent:
  assumes "generateLocationCacheKey location2 = generateLocationCacheKey location1"
    and "getPredictions e1 rnd1 now1 st0 location1 weights1 = (Inr passes1, st1)"
    and "predictionCache st1 (generateLocationCacheKey location1) = Some c"
    and "now2 < pc_expiresAt c"
  shows "getPredictions e2 rnd2 now2 st1 location2 weights2 = (Inr passes1, st1)"
proof -
  have "pc_passes c = passes1"
  proof (cases "predictionCache st0 (generateLocationCacheKey location1)")
    case None
    with assms(2) have "computeAndStore e1 rnd1 now1 st0 location1 weights1
        (generateLocationCacheKey location1) None = (Inr passes1, st1)"
      by (simp add: getPredictions_def Let_def)
    from computeAndStore_entry [OF this assms(3)] None show ?thesis
      by simp
  next
    case (Some c0)
    show ?thesis
    proof (cases "now1 < pc_expiresAt c0")
      case True
      with Some assms(2,3) show ?thesis
        by (auto simp: getPredictions_def Let_def)
    next
      case False
      with Some assms(2) have "computeAndStore e1 rnd1 now1 st0 location1 weights1
          (generateLocationCacheKey location1) (Some c0) = (Inr passes1, st1)"
        by (simp add: getPredictions_def Let_def)
      from computeAndStore_entry [OF this assms(3)] Some show ?thesis
        by simp
    qed
  qed
  with assms(1,3,4) show ?thesis
    by (simp add: getPredictions_def Let_def)
qed

theorem getPredictions_idempotent_witness:
  "getPredictions quietEnv (\<lambda>i j k. 0) (exampleNow + 899999)
     (snd (getPredictions exampleEnv (\<lambda>i j k. 1 / 2) exampleNow newEngine exampleLocation None))
     (exampleLocation\<lparr>lat := 1 / 250\<rparr>) (Some DEFAULT_WEIGHTS)
   = (Inr [exampleScored],
      snd (getPredictions exampleEnv (\<lambda>i j k. 1 / 2) exampleNow newEngine exampleLocation None))"
proof -
  let ?st1 = "snd (getPredictions exampleEnv (\<lambda>i j k. 1 / 2) exampleNow newEngine
                     exampleLocation None)"
  have key: "generateLocationCacheKey (exampleLocation\<lparr>lat := 1 / 250\<rparr>)
             = generateLocationCacheKey exampleLocation"
    by (simp add: generateLocationCacheKey_def Math_round_def exampleLocation_def)
  have empty: "case predictionCache newEngine (generateLocationCacheKey exampleLocation) of
                 None \<Rightarrow> True | Some c \<Rightarrow> pc_expiresAt c \<le> exampleNow"
    by (simp add: newEngine_def)
  note miss = getPredictions_miss [OF empty example_fresh]
  from miss have first: "getPredictions exampleEnv (\<lambda>i j k. 1 / 2) exampleNow newEngine
                           exampleLocation None = (Inr [exampleScored], ?st1)"
    by (simp add: prod_eq_iff)
  from miss have entry: "predictionCache ?st1 (generateLocationCacheKey exampleLocation)
      = Some \<lparr>pc_location = exampleLocation, pc_passes = [exampleScored],
               pc_timestamp = exampleNow, pc_expiresAt = exampleNow + CACHE_DURATION_MS\<rparr>"
    by simp
  have before: "exampleNow + 899999
                < pc_expiresAt \<lparr>pc_location = exampleLocation, pc_passes = [exampleScored],
                     pc_timestamp = exampleNow, pc_expiresAt = exampleNow + CACHE_DURATION_MS\<rparr>"
    by (simp add: CACHE_DURATION_MS_def)
  show ?thesis
    by (rule getPredictions_idempotent [OF key first entry before])
qed

section \<open>Properties of the quality report\<close>

lemma keys_mapSet: "fst ` set (mapSet k v m) = insert k (fst ` set m)"
proof (induction m)
  case Nil
  show ?case by simp
next
  case (Cons p m)
  obtain k' v' where p: "p = (k', v')" by (cases p)
  show ?case
  proof (cases "k' = k")
    case True
    with p show ?thesis by simp
  next
    case False
    with p Cons show ?thesis by (simp add: insert_commute)
  qed
qed

lemma keys_fetchSatelliteMap_aux:
  "fst ` set (foldl (\<lambda>m launch.
               case getStarlinkSatellites e (launch_id launch) of
                 Inr satellites \<Rightarrow> mapSet (launch_id launch) satellites m
               | Inl _ \<Rightarrow> mapSet (launch_id launch) [] m) m0 launches)
   = fst ` set m0 \<union> launch_id ` set launches"
proof (induction launches arbitrary: m0)
  case Nil
  show ?case by simp
next
  case (Cons l ls)
  show ?case
    by (cases "getStarlinkSatellites e (launch_id l)") (simp_all add: Cons keys_mapSet)
qed

lemma snapshotOk_fetchSatelliteMap: "snapshotOk launches (fetchSatelliteMap e launches)"
  by (simp add: snapshotOk_def fetchSatelliteMap_def keys_fetchSatelliteMap_aux)

lemma engineOk_newEngine: "engineOk newEngine"
  by (simp add: engineOk_def newEngine_def)

lemma engineOk_clearCache: "engineOk (clearCache st)"
  by (simp add: engineOk_def clearCache_def)

lemma engineOk_cleanupCache: "engineOk st \<Longrightarrow> engineOk (cleanupCache now st)"
  by (simp add: engineOk_def cleanupCache_def split: option.splits)

lemma engineOk_getLaunchAndSatelliteData:
  assumes "engineOk st" and "getLaunchAndSatelliteData e now st = (r, st1)"
  shows "engineOk st1 \<and> (\<forall>launches m. r = Inr (launches, m) \<longrightarrow> snapshotOk launches m)"
  using assms
  by (auto simp: getLaunchAndSatelliteData_def liveLaunchCache_def engineOk_def Let_def
      snapshotOk_fetchSatelliteMap split: option.splits sum.splits if_splits)

lemma engineOk_calculateFreshPredictions:
  assumes "engineOk st"
  shows "engineOk (snd (calculateFreshPredictions e rnd now st location weights))"
proof -
  obtain r st1 where g: "getLaunchAndSatelliteData e now st = (r, st1)"
    by (cases "getLaunchAndSatelliteData e now st")
  with assms have "engineOk st1"
    using engineOk_getLaunchAndSatelliteData by blast
  with g show ?thesis
    by (simp add: calculateFreshPredictions_def Let_def split: sum.splits prod.splits)
qed

lemma engineOk_getPredictions:
  assumes "engineOk st"
  shows "engineOk (snd (getPredictions e rnd now st location weights))"
proof -
  obtain r st1 where f: "calculateFreshPredictions e rnd now st location weights = (r, st1)"
    by (cases "calculateFreshPredictions e rnd now st location weights")
  with assms have ok1: "engineOk st1"
    using engineOk_calculateFreshPredictions [of st e rnd now location weights] by simp
  have "engineOk (snd (computeAndStore e rnd now st location weights k cached))" for k cached
  proof (cases r)
    case (Inl err)
    with f ok1 show ?thesis
      by (simp add: computeAndStore_def split: option.splits)
  next
    case (Inr ps)
    have "engineOk (st1\<lparr>predictionCache := m\<rparr>)" for m
      using ok1 by (simp add: engineOk_def)
    with f Inr show ?thesis
      by (simp add: computeAndStore_def Let_def engineOk_cleanupCache)
  qed
  with assms show ?thesis
    by (simp add: getPredictions_def Let_def split: option.splits)
qed

lemma engineOk_getPredictionQuality:
  assumes "engineOk st"
  shows "engineOk (snd (getPredictionQuality e now st location))"
proof -
  obtain r st1 where g: "getLaunchAndSatelliteData e now st = (r, st1)"
    by (cases "getLaunchAndSatelliteData e now st")
  with assms have "engineOk st1"
    using engineOk_getLaunchAndSatelliteData by blast
  with g show ?thesis
    by (simp add: getPredictionQuality_def Let_def split: sum.splits prod.splits)
qed

text \<open>
  Claim C4, as amended. With zero launches in the snapshot the score is 100 - 50 = 50
  before the latitude factor: the report cites the absence of recent launches, and its
  quality is "poor" for an observer below 30 degrees of latitude and "fair" for every
  other observer.
\<close>

theorem getPredictionQuality_no_launches:
  assumes "engineOk st"
    and "fst (getLaunchAndSatelliteData e now st) = Inr ([], satelliteMap)"
  shows "fst (getPredictionQuality e now st location)
         = Inr \<lparr>quality = (if \<bar>lat location\<bar> < 30 then poor else fair),
                factors = ''No recent Starlink launches found''
                          # (if \<bar>lat location\<bar> > 60 then [''High latitude location'']
                             else if \<bar>lat location\<bar> < 30 then [''Low latitude location'']
                             else []),
                recommendations = ''Check back after the next Starlink launch''
                          # (if \<bar>lat location\<bar> > 60 then [''Excellent visibility at high latitudes'']
                             else if \<bar>lat location\<bar> < 30
                             then [''Fewer passes visible at low latitudes'']
                             else [])\<rparr>"
proof -
  obtain r st1 where g: "getLaunchAndSatelliteData e now st = (r, st1)"
    by (cases "getLaunchAndSatelliteData e now st")
  with assms(2) have r: "r = Inr ([], satelliteMap)" by simp
  with assms(1) g have "snapshotOk [] satelliteMap"
    using engineOk_getLaunchAndSatelliteData by blast
  then have empty: "satelliteMap = []"
    by (simp add: snapshotOk_def)
  have tle: "tleFactor e now [] a = a" for a
    by (simp add: tleFactor_def totalSatellitesOf_def)
  show ?thesis
    using g r empty
    by (simp add: getPredictionQuality_def Let_def launchFactor_def tle locationFactor_def
        qualityLevel_def)
qed

theorem getPredictionQuality_no_launches_witness:
  "fst (getPredictionQuality quietEnv exampleNow newEngine exampleLocation)
   = Inr \<lparr>quality = poor,
          factors = [''No recent Starlink launches found'', ''Low latitude location''],
          recommendations = [''Check back after the next Starlink launch'',
                             ''Fewer passes visible at low latitudes'']\<rparr>"
proof -
  have "fst (getLaunchAndSatelliteData quietEnv exampleNow newEngine) = Inr ([], [])"
    by (simp add: getLaunchAndSatelliteData_def liveLaunchCache_def newEngine_def quietEnv_def
        fetchSatelliteMap_def)
  from getPredictionQuality_no_launches [OF engineOk_newEngine this, of exampleLocation]
  show ?thesis
    by (simp add: exampleLocation_def)
qed

text \<open>
  Zero launches do not give the quality "poor" for every observer: at latitude 45 the
  score is 50, which is "fair".
\<close>

theorem getPredictionQuality_no_launches_fair:
  "fst (getPredictionQuality quietEnv exampleNow newEngine midLatitudeLocation)
   = Inr \<lparr>quality = fair,
          factors = [''No recent Starlink launches found''],
          recommendations = [''Check back after the next Starlink launch'']\<rparr>"
  by (simp add: getPredictionQuality_def getLaunchAndSatelliteData_def liveLaunchCache_def
      newEngine_def quietEnv_def fetchSatelliteMap_def launchFactor_def tleFactor_def
      totalSatellitesOf_def locationFactor_def qualityLevel_def midLatitudeLocation_def Let_def)






end
